theory Spec2Isabelle
  imports Complex_Main
begin

section \<open>Data model\<close>

text \<open>
  A stored identifier (type \<open>oid\<close>) is a MongoDB ObjectId, written as its canonical
  hexadecimal text (what \<open>String(id)\<close> gives). Text that arrives in a request is turned
  into an ObjectId by the driver, which is not part of the repository: every operation
  below takes that conversion as its first argument \<open>C\<close>. \<open>C s = Some i\<close> means that
  \<open>new Types.ObjectId(s)\<close>, and the cast Mongoose applies to \<open>s\<close> in a query filter,
  give the identifier \<open>i\<close>; \<open>C s = None\<close> means that \<open>Types.ObjectId.isValid(s)\<close> is
  false and that the construction or cast throws. Two texts that differ in the case of
  their hexadecimal digits denote the same identifier. The error handler turns any error
  that is not an \<open>AppError\<close> into status 500.

  Times are milliseconds since the epoch. The current time, freshly generated tokens and
  fresh document identifiers are arguments of the operations that use them. A string is
  a sequence of UTF-16 code units; the model covers the code units below U+0100, one
  8-bit character each, with the case mapping and the white space that JavaScript
  defines on that range. Arithmetic on numbers is exact: the rounding of double
  precision is not modelled. The \<open>_id\<close> and timestamps of a membership, and the audit
  log (written, never read), are left out.
\<close>

type_synonym oid = string

datatype global_role = SUPER_ADMIN | USER

datatype tenant_role = OWNER | ADMIN | MODERATOR | MEMBER

datatype membership_status = PENDING | ACTIVE | SUSPENDED | BANNED

text \<open>A value read from a request body or query: absent, null, or a value given by the
  text that \<open>String(...)\<close> produces for it.\<close>

datatype jsval = JUndefined | JNull | JVal string

record failure =
  f_status :: nat
  f_code :: string
  f_message :: string

definition AppError :: "string \<Rightarrow> nat \<Rightarrow> string \<Rightarrow> failure" where
  "AppError msg st cd = \<lparr>f_status = st, f_code = cd, f_message = msg\<rparr>"

definition internalError :: failure where
  "internalError = AppError ''Internal server error'' 500 ''INTERNAL_SERVER_ERROR''"

record identity =
  sub :: oid
  globalRole :: global_role

record membership =
  m_tenantId :: oid
  m_userId :: oid
  m_role :: tenant_role
  m_status :: membership_status

record tenant =
  t_id :: oid
  t_name :: string
  t_slug :: string
  t_logoUrl :: string
  t_createdBy :: oid

record tenant_settings =
  s_tenantId :: oid
  s_approvalRequired :: bool
  s_publicSignup :: bool

record user =
  u_id :: oid
  u_email :: string
  u_fullName :: string
  u_phone :: string

record invitation =
  i_id :: oid
  i_tenantId :: oid
  i_email :: string
  i_phone :: string
  i_role :: tenant_role
  i_status :: string
  i_token :: string
  i_expiresAt :: int
  i_invitedBy :: oid
  i_acceptedByUserId :: "oid option"
  i_acceptedAt :: "int option"
  i_revokedByUserId :: "oid option"
  i_revokedAt :: "int option"

record member_profile =
  p_tenantId :: oid
  p_userId :: oid
  p_fullName :: string
  p_phone :: string
  p_customFields :: "(string \<times> string) list"

record file_doc =
  fd_id :: oid
  fd_contentType :: string
  fd_length :: nat
  fd_metaTenantId :: jsval
  fd_data :: string

record db =
  tenants :: "tenant list"
  settingsRows :: "tenant_settings list"
  users :: "user list"
  memberships :: "membership list"
  invitations :: "invitation list"
  profiles :: "member_profile list"
  files :: "file_doc list"
  connected :: bool

section \<open>String helpers\<close>

definition js_String :: "jsval \<Rightarrow> string" where
  "js_String v = (case v of JUndefined \<Rightarrow> ''undefined'' | JNull \<Rightarrow> ''null'' | JVal s \<Rightarrow> s)"

text \<open>The white space and line terminators of JavaScript below U+0100: tab, line feed,
  vertical tab, form feed, carriage return, space and the no-break space U+00A0.\<close>

definition is_ws :: "char \<Rightarrow> bool" where
  "is_ws c = (c \<in> set [CHR '' '', CHR 0x09, CHR 0x0A, CHR 0x0B, CHR 0x0C, CHR 0x0D, CHR 0xA0])"

definition js_trim :: "string \<Rightarrow> string" where
  "js_trim s = rev (dropWhile is_ws (rev (dropWhile is_ws s)))"

text \<open>\<open>toLowerCase\<close> below U+0100: the letters A to Z, and U+00C0 to U+00DE except
  the multiplication sign U+00D7, move up by 32.\<close>

definition lower_char :: "char \<Rightarrow> char" where
  "lower_char c =
     (let n = (of_char c :: nat)
      in if (65 \<le> n \<and> n \<le> 90) \<or> (192 \<le> n \<and> n \<le> 222 \<and> n \<noteq> 215)
         then char_of (n + 32) else c)"

definition js_toLowerCase :: "string \<Rightarrow> string" where
  "js_toLowerCase s = map lower_char s"

section \<open>Invitation status\<close>

text \<open>\<open>normalizeInvitationStatus(status, expiresAt)\<close>, with \<open>Date.now()\<close> as first
  argument.\<close>

definition normalizeInvitationStatus :: "int \<Rightarrow> string \<Rightarrow> int \<Rightarrow> string" where
  "normalizeInvitationStatus now status expiresAt =
     (if status = ''REVOKED'' then ''REVOKED''
      else if status = ''ACCEPTED'' then ''ACCEPTED''
      else if expiresAt < now then ''EXPIRED''
      else ''SENT'')"

section \<open>The role gate\<close>

record request =
  req_user :: "identity option"
  params_tenantId :: "string option"
  params_id :: "string option"
  body_tenantId :: jsval
  query_tenantId :: jsval

text \<open>What the middleware does: call \<open>next()\<close>, send a failure, or (when the query
  itself throws) neither, its promise being rejected.\<close>

datatype gate_result = Next | Fail failure | Unhandled

text \<open>The chain \<open>a ?? b ?? c ?? d ?? ''\<close>: the first operand that is neither undefined
  nor null, rendered by \<open>String(...)\<close>.\<close>

definition tenantIdRaw :: "request \<Rightarrow> string" where
  "tenantIdRaw req =
     (case params_tenantId req of Some s \<Rightarrow> s
      | None \<Rightarrow>
        (case params_id req of Some s \<Rightarrow> s
         | None \<Rightarrow>
           (case body_tenantId req of JVal s \<Rightarrow> s
            | _ \<Rightarrow> (case query_tenantId req of JVal s \<Rightarrow> s | _ \<Rightarrow> ''''))))"

definition tenantIdStr :: "request \<Rightarrow> string" where
  "tenantIdStr req = js_trim (tenantIdRaw req)"

text \<open>\<open>MembershipModel.findOne({tenantId, userId, status: 'ACTIVE'})\<close>, on identifiers
  already cast.\<close>

definition findActiveMembership :: "oid \<Rightarrow> oid \<Rightarrow> membership list \<Rightarrow> membership option" where
  "findActiveMembership tid uid ms =
     find (\<lambda>m. m_tenantId m = tid \<and> m_userId m = uid \<and> m_status m = ACTIVE) ms"

text \<open>The filter of the lookup holds the resolved text and the token's subject; Mongoose
  casts both to ObjectIds. The subject of a token that passed the \<open>auth\<close> middleware was
  already used there to load the user, so its cast succeeds on every routed request.\<close>

definition requireTenantRole ::
  "(string \<Rightarrow> oid option) \<Rightarrow> tenant_role list \<Rightarrow> request \<Rightarrow> db \<Rightarrow> gate_result \<times> db" where
  "requireTenantRole C roles req d =
     (case req_user req of
        None \<Rightarrow> (Fail (AppError ''Unauthorized'' 401 ''UNAUTHORIZED''), d)
      | Some u \<Rightarrow>
          if globalRole u = SUPER_ADMIN then (Next, d)
          else
            (case (if tenantIdStr req = [] then None else C (tenantIdStr req)) of
               None \<Rightarrow>
                 (Fail (AppError ''Valid tenantId is required'' 400 ''VALIDATION_ERROR''), d)
             | Some tid \<Rightarrow>
                 (case C (sub u) of
                    None \<Rightarrow> (Unhandled, d)
                  | Some uid \<Rightarrow>
                      (case findActiveMembership tid uid (memberships d) of
                         None \<Rightarrow> (Fail (AppError ''Forbidden'' 403 ''FORBIDDEN''), d)
                       | Some m \<Rightarrow>
                           if m_role m \<in> set roles then (Next, d)
                           else (Fail (AppError ''Forbidden'' 403 ''FORBIDDEN''), d)))))"

section \<open>Store primitives\<close>

text \<open>\<open>findOneAndUpdate(filter, update, {upsert: true, new: true})\<close>: the first
  document matching the filter is updated in place; when none matches, a new one is
  inserted.\<close>

fun upsertBy :: "('a \<Rightarrow> bool) \<Rightarrow> ('a \<Rightarrow> 'a) \<Rightarrow> 'a \<Rightarrow> 'a list \<Rightarrow> 'a list" where
  "upsertBy P f new [] = [new]"
| "upsertBy P f new (x # xs) = (if P x then f x # xs else x # upsertBy P f new xs)"

text \<open>\<open>findOneAndUpdate(filter, update, {new: true})\<close> without upsert.\<close>

fun updateFirst :: "('a \<Rightarrow> bool) \<Rightarrow> ('a \<Rightarrow> 'a) \<Rightarrow> 'a list \<Rightarrow> 'a list" where
  "updateFirst P f [] = []"
| "updateFirst P f (x # xs) = (if P x then f x # xs else x # updateFirst P f xs)"

definition upsertMembership ::
  "oid \<Rightarrow> oid \<Rightarrow> tenant_role \<Rightarrow> membership_status \<Rightarrow> membership list \<Rightarrow> membership list" where
  "upsertMembership tid uid r st ms =
     upsertBy (\<lambda>m. m_tenantId m = tid \<and> m_userId m = uid)
       (\<lambda>m. m\<lparr>m_tenantId := tid, m_userId := uid, m_role := r, m_status := st\<rparr>)
       \<lparr>m_tenantId = tid, m_userId = uid, m_role = r, m_status = st\<rparr> ms"

definition upsertProfile ::
  "oid \<Rightarrow> oid \<Rightarrow> string \<Rightarrow> string \<Rightarrow> (string \<times> string) list \<Rightarrow> member_profile list
     \<Rightarrow> member_profile list" where
  "upsertProfile tid uid fullName phone cf ps =
     upsertBy (\<lambda>p. p_tenantId p = tid \<and> p_userId p = uid)
       (\<lambda>p. p\<lparr>p_tenantId := tid, p_userId := uid, p_fullName := fullName, p_phone := phone,
              p_customFields := cf\<rparr>)
       \<lparr>p_tenantId = tid, p_userId = uid, p_fullName = fullName, p_phone = phone,
        p_customFields = cf\<rparr> ps"

text \<open>\<open>doc.save()\<close>: the stored document with the same \<open>_id\<close> is replaced.\<close>

definition saveInvitation :: "invitation \<Rightarrow> invitation list \<Rightarrow> invitation list" where
  "saveInvitation doc invs = map (\<lambda>i. if i_id i = i_id doc then doc else i) invs"

definition saveUser :: "user \<Rightarrow> user list \<Rightarrow> user list" where
  "saveUser u us = map (\<lambda>x. if u_id x = u_id u then u else x) us"

section \<open>Tenant files\<close>

text \<open>\<open>ensureMembership\<close> of the upload controller; \<open>None\<close> is the normal return.\<close>

definition ensureMembership ::
  "(string \<Rightarrow> oid option) \<Rightarrow> string \<Rightarrow> string \<Rightarrow> db \<Rightarrow> failure option" where
  "ensureMembership C tenantId userId d =
     (case C tenantId of
        None \<Rightarrow> Some internalError
      | Some tid \<Rightarrow>
          (case C userId of
             None \<Rightarrow> Some internalError
           | Some uid \<Rightarrow>
               (case findActiveMembership tid uid (memberships d) of
                  None \<Rightarrow> Some (AppError ''Not a tenant member'' 403 ''FORBIDDEN'')
                | Some row \<Rightarrow> None)))"

record download =
  dl_contentType :: string
  dl_body :: string

text \<open>\<open>getTenantFile\<close>. The file is looked up by the ObjectId of \<open>fileId\<close>; the tenant
  tag is compared as text with the path parameter.\<close>

definition getTenantFile ::
  "(string \<Rightarrow> oid option) \<Rightarrow> string \<Rightarrow> string \<Rightarrow> string \<Rightarrow> db \<Rightarrow> failure + download" where
  "getTenantFile C tenantId fileId userSub d =
     (case ensureMembership C tenantId userSub d of
        Some e \<Rightarrow> Inl e
      | None \<Rightarrow>
          (case (if fileId = [] then None else C fileId) of
             None \<Rightarrow> Inl (AppError ''Invalid file id'' 400 ''VALIDATION_ERROR'')
           | Some fid \<Rightarrow>
               if \<not> connected d
               then Inl (AppError ''Database not connected'' 503 ''SERVICE_UNAVAILABLE'')
               else
                 (case find (\<lambda>f. fd_id f = fid) (files d) of
                    None \<Rightarrow> Inl (AppError ''File not found'' 404 ''NOT_FOUND'')
                  | Some fileDoc \<Rightarrow>
                      if js_String (fd_metaTenantId fileDoc) \<noteq> tenantId
                      then Inl (AppError ''File not found'' 404 ''NOT_FOUND'')
                      else Inr \<lparr>dl_contentType =
                                  (if fd_contentType fileDoc = []
                                   then ''application/octet-stream''
                                   else fd_contentType fileDoc),
                                dl_body = fd_data fileDoc\<rparr>)))"

section \<open>Members\<close>

text \<open>\<open>updateMemberRole\<close>. The body's \<open>status\<close> is \<open>None\<close> when it is omitted or
  falsy; the body's \<open>role\<close> is \<open>None\<close> when it is undefined, and the update then leaves
  the role as it is (an undefined field is dropped from the update document).\<close>

definition updateMemberRole ::
  "(string \<Rightarrow> oid option) \<Rightarrow> string \<Rightarrow> string \<Rightarrow> tenant_role option
     \<Rightarrow> membership_status option \<Rightarrow> db \<Rightarrow> (failure + membership) \<times> db" where
  "updateMemberRole C tenantId userId bodyRole bodyStatus d =
     (case C tenantId of
        None \<Rightarrow> (Inl internalError, d)
      | Some tid \<Rightarrow>
        (case C userId of
           None \<Rightarrow> (Inl internalError, d)
         | Some uid \<Rightarrow>
           (let match = (\<lambda>m. m_tenantId m = tid \<and> m_userId m = uid);
                upd = (\<lambda>m. m\<lparr>m_role := (case bodyRole of Some r \<Rightarrow> r | None \<Rightarrow> m_role m),
                              m_status := (case bodyStatus of Some st \<Rightarrow> st
                                           | None \<Rightarrow> ACTIVE)\<rparr>)
            in case find match (memberships d) of
                 None \<Rightarrow> (Inl (AppError ''Membership not found'' 404 ''NOT_FOUND''), d)
               | Some m \<Rightarrow>
                   (Inr (upd m),
                    d\<lparr>memberships := updateFirst match upd (memberships d)\<rparr>))))"

section \<open>Invitations\<close>

definition dayMs :: int where
  "dayMs = 24 * 60 * 60 * 1000"

text \<open>JavaScript numbers: not-a-number, the two infinities and the finite numbers.\<close>

datatype js_number = NaN | NegInf | Fin rat | PosInf

text \<open>A value of the request body as \<open>Number(x || 7)\<close> sees it. An array or object is
  given by the text that \<open>String(...)\<close> produces for it.\<close>

datatype js_value =
  VUndefined | VNull | VBool bool | VNumber js_number | VString string | VObject string

definition truthy :: "js_value \<Rightarrow> bool" where
  "truthy v =
     (case v of VUndefined \<Rightarrow> False | VNull \<Rightarrow> False | VBool b \<Rightarrow> b
      | VNumber n \<Rightarrow> n \<noteq> NaN \<and> n \<noteq> Fin 0
      | VString s \<Rightarrow> s \<noteq> [] | VObject s \<Rightarrow> True)"

text \<open>\<open>Number(v)\<close>. The conversion of text to a number is a built-in of the language and
  is the argument \<open>P\<close>.\<close>

definition js_Number :: "(string \<Rightarrow> js_number) \<Rightarrow> js_value \<Rightarrow> js_number" where
  "js_Number P v =
     (case v of VUndefined \<Rightarrow> NaN | VNull \<Rightarrow> Fin 0
      | VBool b \<Rightarrow> Fin (if b then 1 else 0)
      | VNumber n \<Rightarrow> n | VString s \<Rightarrow> P s | VObject s \<Rightarrow> P s)"

text \<open>\<open>Math.min(a, x)\<close> and \<open>Math.max(a, x)\<close> for a finite \<open>a\<close>.\<close>

definition js_min :: "rat \<Rightarrow> js_number \<Rightarrow> js_number" where
  "js_min a x =
     (case x of NaN \<Rightarrow> NaN | NegInf \<Rightarrow> NegInf | Fin q \<Rightarrow> Fin (min a q) | PosInf \<Rightarrow> Fin a)"

definition js_max :: "rat \<Rightarrow> js_number \<Rightarrow> js_number" where
  "js_max a x =
     (case x of NaN \<Rightarrow> NaN | NegInf \<Rightarrow> Fin a | Fin q \<Rightarrow> Fin (max a q) | PosInf \<Rightarrow> PosInf)"

definition js_truncate :: "rat \<Rightarrow> int" where
  "js_truncate x = (if 0 \<le> x then \<lfloor>x\<rfloor> else \<lceil>x\<rceil>)"

record invitation_body =
  ib_email :: jsval
  ib_phone :: string
  ib_role :: "tenant_role option"
  ib_expiresInDays :: js_value

text \<open>\<open>Number(req.body.expiresInDays || 7)\<close>.\<close>

definition ttlDays :: "(string \<Rightarrow> js_number) \<Rightarrow> js_value \<Rightarrow> js_number" where
  "ttlDays P x = js_Number P (if truthy x then x else VNumber (Fin 7))"

text \<open>\<open>new Date(Date.now() + n * 24 * 60 * 60 * 1000)\<close>: the time value, cut to whole
  milliseconds, or \<open>None\<close> for an invalid date. (\<open>Date.now()\<close> lies far inside the range
  of valid dates.)\<close>

definition expiryDate :: "int \<Rightarrow> js_number \<Rightarrow> int option" where
  "expiryDate now n =
     (case n of Fin q \<Rightarrow> Some (js_truncate (of_int now + q * of_int dayMs)) | _ \<Rightarrow> None)"

text \<open>\<open>createInvitation\<close>. Creating a document with an invalid date fails validation,
  which the error handler reports as status 500.\<close>

definition createInvitation ::
  "(string \<Rightarrow> oid option) \<Rightarrow> (string \<Rightarrow> js_number) \<Rightarrow> int \<Rightarrow> string \<Rightarrow> oid \<Rightarrow> string
     \<Rightarrow> string \<Rightarrow> invitation_body \<Rightarrow> db \<Rightarrow> (failure + invitation) \<times> db" where
  "createInvitation C P now token newId tenantId userSub body d =
     (let email = js_trim (js_toLowerCase (js_String (ib_email body)))
      in case C tenantId of
           None \<Rightarrow> (Inl internalError, d)
         | Some tid \<Rightarrow>
           (case find (\<lambda>i. i_tenantId i = tid \<and> i_email i = email
                            \<and> (i_status i = ''SENT'' \<or> i_status i = ''PENDING'')
                            \<and> now \<le> i_expiresAt i) (invitations d) of
              Some existing \<Rightarrow>
                (Inl (AppError ''An active invitation already exists for this email'' 409
                        ''INVITATION_EXISTS''), d)
            | None \<Rightarrow>
                (let expiresAt =
                       expiryDate now (js_max 1 (js_min 30 (ttlDays P (ib_expiresInDays body))))
                 in case C userSub of
                      None \<Rightarrow> (Inl (AppError ''Invalid tenantId'' 400 ''VALIDATION_ERROR''), d)
                    | Some uid \<Rightarrow>
                      (case expiresAt of
                         None \<Rightarrow> (Inl internalError, d)
                       | Some e \<Rightarrow>
                         (let row = \<lparr>i_id = newId, i_tenantId = tid, i_email = email,
                                     i_phone = js_trim (ib_phone body),
                                     i_role = (case ib_role body of Some r \<Rightarrow> r
                                               | None \<Rightarrow> MEMBER),
                                     i_status = ''SENT'', i_token = token, i_expiresAt = e,
                                     i_invitedBy = uid, i_acceptedByUserId = None,
                                     i_acceptedAt = None, i_revokedByUserId = None,
                                     i_revokedAt = None\<rparr>
                          in (Inr (row\<lparr>i_status :=
                                     normalizeInvitationStatus now (i_status row)
                                       (i_expiresAt row)\<rparr>),
                              d\<lparr>invitations := invitations d @ [row]\<rparr>))))))"

text \<open>\<open>inviteMember\<close> of the tenants controller; the response also carries the invite
  URL. It reads neither the stored invitations nor \<open>expiresInDays\<close>.\<close>

definition inviteMember ::
  "(string \<Rightarrow> oid option) \<Rightarrow> int \<Rightarrow> string \<Rightarrow> oid \<Rightarrow> string \<Rightarrow> string \<Rightarrow> invitation_body \<Rightarrow> db
     \<Rightarrow> (failure + invitation \<times> string) \<times> db" where
  "inviteMember C now token newId tenantId userSub body d =
     (case C tenantId of
        None \<Rightarrow> (Inl internalError, d)
      | Some tid \<Rightarrow>
        (case find (\<lambda>t. t_id t = tid) (tenants d) of
           None \<Rightarrow> (Inl (AppError ''Tenant not found'' 404 ''NOT_FOUND''), d)
         | Some tenant \<Rightarrow>
             (let email = js_trim (js_toLowerCase (js_String (ib_email body)));
                  expiresAt = now + 7 * 24 * 60 * 60 * 1000
              in case C userSub of
                   None \<Rightarrow> (Inl internalError, d)
                 | Some uid \<Rightarrow>
                   (let created = \<lparr>i_id = newId, i_tenantId = t_id tenant, i_email = email,
                                    i_phone = js_trim (ib_phone body),
                                    i_role = (case ib_role body of Some r \<Rightarrow> r | None \<Rightarrow> MEMBER),
                                    i_status = ''SENT'', i_token = token, i_expiresAt = expiresAt,
                                    i_invitedBy = uid, i_acceptedByUserId = None,
                                    i_acceptedAt = None, i_revokedByUserId = None,
                                    i_revokedAt = None\<rparr>
                    in (Inr (created\<lparr>i_status :=
                               normalizeInvitationStatus now (i_status created)
                                 (i_expiresAt created)\<rparr>,
                             ''/c/'' @ t_slug tenant @ ''/join?invite='' @ i_token created),
                        d\<lparr>invitations := invitations d @ [created]\<rparr>)))))"

definition resendInvitation ::
  "(string \<Rightarrow> oid option) \<Rightarrow> int \<Rightarrow> string \<Rightarrow> string \<Rightarrow> string \<Rightarrow> db
     \<Rightarrow> (failure + invitation) \<times> db" where
  "resendInvitation C now token tenantId invId d =
     (case C invId of
        None \<Rightarrow> (Inl internalError, d)
      | Some iid \<Rightarrow>
        (case C tenantId of
           None \<Rightarrow> (Inl internalError, d)
         | Some tid \<Rightarrow>
           (case find (\<lambda>i. i_id i = iid \<and> i_tenantId i = tid) (invitations d) of
              None \<Rightarrow> (Inl (AppError ''Invitation not found'' 404 ''NOT_FOUND''), d)
            | Some existing \<Rightarrow>
                if i_status existing = ''ACCEPTED''
                then (Inl (AppError ''Cannot resend an accepted invitation'' 400
                             ''INVALID_STATE''), d)
                else
                  (let existing' = existing\<lparr>i_token := token, i_status := ''SENT'',
                                     i_revokedAt := None, i_revokedByUserId := None,
                                     i_expiresAt := now + 7 * 24 * 60 * 60 * 1000\<rparr>
                   in (Inr (existing'\<lparr>i_status :=
                              normalizeInvitationStatus now (i_status existing')
                                (i_expiresAt existing')\<rparr>),
                       d\<lparr>invitations := saveInvitation existing' (invitations d)\<rparr>)))))"

section \<open>Joining a tenant\<close>

definition approvalStatus :: "tenant_settings option \<Rightarrow> membership_status" where
  "approvalStatus settings =
     (case settings of Some s \<Rightarrow> if s_approvalRequired s then PENDING else ACTIVE
      | None \<Rightarrow> ACTIVE)"

text \<open>\<open>joinTenant\<close>; the response is the membership and the HTTP status.\<close>

definition joinTenant ::
  "(string \<Rightarrow> oid option) \<Rightarrow> string \<Rightarrow> string \<Rightarrow> db
     \<Rightarrow> (failure + membership \<times> nat) \<times> db" where
  "joinTenant C tenantId userSub d =
     (case C tenantId of
        None \<Rightarrow> (Inl internalError, d)
      | Some tid \<Rightarrow>
        (case find (\<lambda>t. t_id t = tid) (tenants d) of
           None \<Rightarrow> (Inl (AppError ''Tenant not found'' 404 ''NOT_FOUND''), d)
         | Some tenant \<Rightarrow>
             (let settings = find (\<lambda>s. s_tenantId s = t_id tenant) (settingsRows d);
                  role = MEMBER;
                  status = approvalStatus settings
              in case C userSub of
                   None \<Rightarrow> (Inl internalError, d)
                 | Some userId \<Rightarrow>
                   (case find (\<lambda>m. m_tenantId m = t_id tenant \<and> m_userId m = userId)
                           (memberships d) of
                      Some existing \<Rightarrow> (Inr (existing, 200), d)
                    | None \<Rightarrow>
                        (let created = \<lparr>m_tenantId = t_id tenant, m_userId = userId,
                                         m_role = role, m_status = status\<rparr>
                         in (Inr (created, 201),
                             d\<lparr>memberships := memberships d @ [created]\<rparr>))))))"

definition getMembershipRoute :: "string \<Rightarrow> membership \<Rightarrow> string" where
  "getMembershipRoute slug m =
     (if m_status m = PENDING then ''/c/'' @ slug @ ''/pending''
      else if m_role m = OWNER \<or> m_role m = ADMIN \<or> m_role m = MODERATOR
      then ''/c/'' @ slug @ ''/admin''
      else ''/c/'' @ slug)"

text \<open>The request of \<open>joinTenantBySlug\<close>. Text fields of the body hold
  \<open>String(field || '')\<close>: the empty string when the field is absent.\<close>

record join_request =
  jq_user :: "identity option"
  jq_slug :: string
  jq_inviteToken :: string
  jq_fullName :: string
  jq_phone :: string
  jq_customFields :: "(string \<times> string) list"

record join_response =
  jr_membership :: membership
  jr_nextRoute :: string
  jr_pendingApproval :: bool

definition joinTenantBySlug ::
  "(string \<Rightarrow> oid option) \<Rightarrow> int \<Rightarrow> join_request \<Rightarrow> db
     \<Rightarrow> (failure + join_response) \<times> db" where
  "joinTenantBySlug C now req d =
     (case jq_user req of
        None \<Rightarrow> (Inl (AppError ''Unauthorized'' 401 ''UNAUTHORIZED''), d)
      | Some who \<Rightarrow>
        if sub who = [] then (Inl (AppError ''Unauthorized'' 401 ''UNAUTHORIZED''), d)
        else
        (let slug = js_toLowerCase (jq_slug req);
             inviteToken = js_trim (jq_inviteToken req);
             fullName = js_trim (jq_fullName req);
             phone = js_trim (jq_phone req)
         in case find (\<lambda>t. t_slug t = slug) (tenants d) of
              None \<Rightarrow> (Inl (AppError ''Tenant not found'' 404 ''NOT_FOUND''), d)
            | Some tenant \<Rightarrow>
              case C (sub who) of
                None \<Rightarrow> (Inl internalError, d)
              | Some userId \<Rightarrow>
              (let settings = find (\<lambda>s. s_tenantId s = t_id tenant) (settingsRows d);
                   existingMembership =
                     find (\<lambda>m. m_tenantId m = t_id tenant \<and> m_userId m = userId) (memberships d)
               in case find (\<lambda>u. u_id u = userId) (users d) of
                    None \<Rightarrow> (Inl (AppError ''User not found'' 404 ''NOT_FOUND''), d)
                  | Some user \<Rightarrow>
                    if map_option m_status existingMembership = Some BANNED
                    then (Inl (AppError ''You are banned from this community'' 403 ''FORBIDDEN''), d)
                    else
                    (let inviteRow =
                           (if inviteToken \<noteq> []
                            then find (\<lambda>i. i_tenantId i = t_id tenant \<and> i_token i = inviteToken)
                                   (invitations d)
                            else None);
                         invitationStatus =
                           (case inviteRow of
                              Some i \<Rightarrow> normalizeInvitationStatus now (i_status i) (i_expiresAt i)
                            | None \<Rightarrow> [])
                     in
                     if inviteToken \<noteq> [] \<and> inviteRow = None
                     then (Inl (AppError ''Invitation not found'' 404 ''NOT_FOUND''), d)
                     else if inviteToken \<noteq> [] \<and> invitationStatus \<noteq> ''SENT''
                     then (Inl (AppError (''Invitation is '' @ js_toLowerCase invitationStatus) 400
                                  ''INVITATION_INVALID''), d)
                     else if inviteToken \<noteq> []
                             \<and> map_option i_email inviteRow \<noteq> Some (js_toLowerCase (u_email user))
                     then (Inl (AppError ''Invitation email does not match your account'' 403
                                  ''FORBIDDEN''), d)
                     else if inviteToken = []
                             \<and> \<not> (case settings of Some s \<Rightarrow> s_publicSignup s | None \<Rightarrow> False)
                     then (Inl (AppError
                                  ''Public signup is disabled for this community. An invitation link is required to join.''
                                  403 ''PUBLIC_JOIN_DISABLED''), d)
                     else if inviteRow = None \<and> fullName = []
                     then (Inl (AppError ''Full name is required'' 400 ''VALIDATION_ERROR''), d)
                     else if inviteRow = None \<and> phone = []
                     then (Inl (AppError ''Phone number is required'' 400 ''VALIDATION_ERROR''), d)
                     else
                     (let assignedRole = (case inviteRow of Some i \<Rightarrow> i_role i | None \<Rightarrow> MEMBER);
                          membershipStatus =
                            (case inviteRow of Some i \<Rightarrow> ACTIVE | None \<Rightarrow> approvalStatus settings);
                          newStatus =
                            (if map_option m_status existingMembership = Some ACTIVE then ACTIVE
                             else membershipStatus);
                          membership = \<lparr>m_tenantId = t_id tenant, m_userId = userId,
                                        m_role = assignedRole, m_status = newStatus\<rparr>;
                          user' = user\<lparr>u_fullName := (if fullName \<noteq> [] then fullName
                                                        else u_fullName user),
                                       u_phone := (if phone \<noteq> [] then phone else u_phone user)\<rparr>
                      in (Inr \<lparr>jr_membership = membership,
                               jr_nextRoute = getMembershipRoute (t_slug tenant) membership,
                               jr_pendingApproval = (m_status membership = PENDING)\<rparr>,
                          d\<lparr>memberships :=
                               upsertMembership (t_id tenant) userId assignedRole newStatus
                                 (memberships d),
                            profiles :=
                               upsertProfile (t_id tenant) userId fullName phone
                                 (jq_customFields req) (profiles d),
                            users := (if fullName \<noteq> [] \<or> phone \<noteq> [] then saveUser user' (users d)
                                      else users d),
                            invitations :=
                               (case inviteRow of
                                  Some i \<Rightarrow>
                                    saveInvitation
                                      (i\<lparr>i_status := ''ACCEPTED'',
                                         i_acceptedByUserId := Some userId,
                                         i_acceptedAt := Some now\<rparr>)
                                      (invitations d)
                                | None \<Rightarrow> invitations d)\<rparr>))))))"

section \<open>Super-admin promotion\<close>

definition hyphenate :: "char \<Rightarrow> char" where
  "hyphenate c = (if c \<in> set ''abcdefghijklmnopqrstuvwxyz0123456789-'' then c else CHR ''-'')"

fun collapseHyphens :: "string \<Rightarrow> string" where
  "collapseHyphens (a # b # cs) =
     (if a = CHR ''-'' \<and> b = CHR ''-'' then collapseHyphens (b # cs)
      else a # collapseHyphens (b # cs))"
| "collapseHyphens cs = cs"

definition stripHyphens :: "string \<Rightarrow> string" where
  "stripHyphens s =
     (let s1 = (case s of c # cs \<Rightarrow> if c = CHR ''-'' then cs else s | [] \<Rightarrow> [])
      in if s1 \<noteq> [] \<and> last s1 = CHR ''-'' then butlast s1 else s1)"

definition normalizeSlug :: "string \<Rightarrow> string" where
  "normalizeSlug input =
     stripHyphens (collapseHyphens (map hyphenate (js_toLowerCase (js_trim input))))"

record promote_body =
  pb_existingTenantId :: string
  pb_membershipRole :: string
  pb_tenantName :: string
  pb_tenantSlug :: string
  pb_logoUrl :: string

record promote_response =
  pr_user :: user
  pr_tenant :: tenant
  pr_membership :: membership
  pr_createdTenant :: bool

definition promoteMembership :: "tenant \<Rightarrow> bool \<Rightarrow> user \<Rightarrow> oid \<Rightarrow> tenant_role \<Rightarrow> db
     \<Rightarrow> (failure + promote_response) \<times> db" where
  "promoteMembership tenant createdTenant user userId membershipRole d =
     (Inr \<lparr>pr_user = user, pr_tenant = tenant,
           pr_membership = \<lparr>m_tenantId = t_id tenant, m_userId = userId,
                            m_role = membershipRole, m_status = ACTIVE\<rparr>,
           pr_createdTenant = createdTenant\<rparr>,
      d\<lparr>memberships :=
           upsertMembership (t_id tenant) userId membershipRole ACTIVE (memberships d)\<rparr>)"

text \<open>\<open>promoteUserToTenant\<close>; \<open>newId\<close> is the identifier given to a newly created
  tenant. \<open>promoteMembership\<close> is the tail of the function, shared by its two branches.\<close>

definition promoteUserToTenant ::
  "(string \<Rightarrow> oid option) \<Rightarrow> oid \<Rightarrow> string \<Rightarrow> promote_body \<Rightarrow> db
     \<Rightarrow> (failure + promote_response) \<times> db" where
  "promoteUserToTenant C newId userId body d =
     (case C userId of
        None \<Rightarrow> (Inl (AppError ''Invalid userId'' 422 ''VALIDATION_ERROR''), d)
      | Some uid \<Rightarrow>
        (case find (\<lambda>u. u_id u = uid) (users d) of
           None \<Rightarrow> (Inl (AppError ''User not found'' 404 ''NOT_FOUND''), d)
         | Some user \<Rightarrow>
           (let existingTenantId = js_trim (pb_existingTenantId body);
                membershipRole = (if pb_membershipRole body = ''ADMIN'' then ADMIN else OWNER)
            in if existingTenantId \<noteq> []
               then
                 (case C existingTenantId of
                    None \<Rightarrow>
                      (Inl (AppError ''Invalid existingTenantId'' 422 ''VALIDATION_ERROR''), d)
                  | Some tid \<Rightarrow>
                    (case find (\<lambda>t. t_id t = tid) (tenants d) of
                       None \<Rightarrow> (Inl (AppError ''Tenant not found'' 404 ''NOT_FOUND''), d)
                     | Some tenant \<Rightarrow>
                         promoteMembership tenant False user uid membershipRole d))
               else
                 (let tenantName = js_trim (pb_tenantName body);
                      tenantSlug = normalizeSlug (pb_tenantSlug body);
                      logoUrl = js_trim (pb_logoUrl body)
                  in if tenantName = [] \<or> tenantSlug = []
                     then (Inl (AppError ''tenantName and tenantSlug are required'' 422
                                  ''VALIDATION_ERROR''), d)
                     else
                       (case find (\<lambda>t. t_slug t = tenantSlug) (tenants d) of
                          Some slugExists \<Rightarrow>
                            (Inl (AppError ''Slug already in use'' 409 ''SLUG_EXISTS''), d)
                        | None \<Rightarrow>
                            (let tenant = \<lparr>t_id = newId, t_name = tenantName, t_slug = tenantSlug,
                                           t_logoUrl = logoUrl, t_createdBy = uid\<rparr>
                             in promoteMembership tenant True user uid membershipRole
                                  (d\<lparr>tenants := tenants d @ [tenant]\<rparr>)))))))"

section \<open>Example data\<close>

text \<open>A concrete conversion used to run the operations on examples: text of 24
  hexadecimal digits denotes the identifier written with lower-case digits, any other
  text is refused.\<close>

definition hex24 :: "string \<Rightarrow> bool" where
  "hex24 s = (length s = 24 \<and> (\<forall>c \<in> set s. c \<in> set ''0123456789abcdefABCDEF''))"

definition hexOid :: "string \<Rightarrow> oid option" where
  "hexOid s = (if hex24 s then Some (js_toLowerCase s) else None)"

text \<open>A concrete conversion of text to a number for the examples. It agrees with the
  language on the empty text and on text made of decimal digits only, which is all the
  examples apply it to.\<close>

definition isDigit :: "char \<Rightarrow> bool" where
  "isDigit c = (48 \<le> (of_char c :: nat) \<and> (of_char c :: nat) \<le> 57)"

definition decimalNumber :: "string \<Rightarrow> js_number" where
  "decimalNumber s =
     (if list_all isDigit s
      then Fin (of_nat (foldl (\<lambda>a c. 10 * a + (of_char c - 48)) 0 s))
      else NaN)"

definition ex_tid :: oid where
  "ex_tid = ''64b7f0a1c2d3e4f5a6b7c8d9''"

definition ex_tid2 :: oid where
  "ex_tid2 = ''64b7f0a1c2d3e4f5a6b7c8da''"

text \<open>The same identifier as \<open>ex_tid2\<close>, written with upper-case digits.\<close>

definition ex_tid2_upper :: string where
  "ex_tid2_upper = ''64B7F0A1C2D3E4F5A6B7C8DA''"

definition ex_uid :: oid where
  "ex_uid = ''64b7f0a1c2d3e4f5a6b7c8e1''"

definition ex_iid :: oid where
  "ex_iid = ''64b7f0a1c2d3e4f5a6b7c8f2''"

definition ex_fid :: oid where
  "ex_fid = ''64b7f0a1c2d3e4f5a6b7c8f3''"

definition ex_db0 :: db where
  "ex_db0 = \<lparr>tenants = [], settingsRows = [], users = [], memberships = [], invitations = [],
     profiles = [], files = [], connected = True\<rparr>"

text \<open>A caller whose membership in the tenant of the path is only PENDING, and who is an
  active OWNER of another tenant; and the same caller addressing that other tenant with
  its identifier in upper case.\<close>

definition ex_gate_req :: request where
  "ex_gate_req = \<lparr>req_user = Some \<lparr>sub = ex_uid, globalRole = USER\<rparr>,
     params_tenantId = Some ex_tid, params_id = None,
     body_tenantId = JUndefined, query_tenantId = JUndefined\<rparr>"


definition ex_gate_db :: db where
  "ex_gate_db = ex_db0\<lparr>memberships :=
     [\<lparr>m_tenantId = ex_tid, m_userId = ex_uid, m_role = MEMBER, m_status = PENDING\<rparr>,
      \<lparr>m_tenantId = ex_tid2, m_userId = ex_uid, m_role = OWNER, m_status = ACTIVE\<rparr>]\<rparr>"

text \<open>An active member of one tenant and a stored file tagged with another tenant.\<close>

definition ex_file_db :: db where
  "ex_file_db = ex_db0\<lparr>
     memberships := [\<lparr>m_tenantId = ex_tid, m_userId = ex_uid, m_role = MEMBER, m_status = ACTIVE\<rparr>],
     files := [\<lparr>fd_id = ex_fid, fd_contentType = ''image/png'', fd_length = 4,
               fd_metaTenantId = JVal ex_tid2, fd_data = ''DATA''\<rparr>]\<rparr>"

definition ex_member_db :: db where
  "ex_member_db = ex_db0\<lparr>
     memberships := [\<lparr>m_tenantId = ex_tid, m_userId = ex_uid, m_role = MEMBER, m_status = SUSPENDED\<rparr>]\<rparr>"

text \<open>A revoked, expired invitation; and a request body for Bob, asking for 0 days.\<close>

definition ex_revoked :: invitation where
  "ex_revoked = \<lparr>i_id = ex_iid, i_tenantId = ex_tid, i_email = ''bob@x.io'', i_phone = [],
     i_role = MODERATOR, i_status = ''REVOKED'', i_token = ''tok-1'', i_expiresAt = 500,
     i_invitedBy = ex_uid, i_acceptedByUserId = None, i_acceptedAt = None,
     i_revokedByUserId = Some ex_uid, i_revokedAt = Some 400\<rparr>"

definition ex_inv_db :: db where
  "ex_inv_db = ex_db0\<lparr>invitations := [ex_revoked]\<rparr>"

definition ex_body :: invitation_body where
  "ex_body = \<lparr>ib_email = JVal '' Bob@X.io'', ib_phone = [], ib_role = None,
     ib_expiresInDays = VNumber (Fin 0)\<rparr>"

text \<open>A tenant that requires approval and has public signup switched off, a user with a
  PENDING membership in it, and an invitation for that user that is still valid at
  time 1000.\<close>

definition ex_tenant :: tenant where
  "ex_tenant = \<lparr>t_id = ex_tid, t_name = ''Acme'', t_slug = ''acme'', t_logoUrl = [],
     t_createdBy = ex_uid\<rparr>"

definition ex_user :: user where
  "ex_user = \<lparr>u_id = ex_uid, u_email = ''bob@x.io'', u_fullName = ''Bob'', u_phone = ''1''\<rparr>"

definition ex_sent :: invitation where
  "ex_sent = \<lparr>i_id = ex_iid, i_tenantId = ex_tid, i_email = ''bob@x.io'', i_phone = [],
     i_role = MODERATOR, i_status = ''SENT'', i_token = ''tok-1'', i_expiresAt = 2000,
     i_invitedBy = ex_uid, i_acceptedByUserId = None, i_acceptedAt = None,
     i_revokedByUserId = None, i_revokedAt = None\<rparr>"

definition ex_accept_db :: db where
  "ex_accept_db = ex_db0\<lparr>
     tenants := [ex_tenant],
     settingsRows := [\<lparr>s_tenantId = ex_tid, s_approvalRequired = True, s_publicSignup = False\<rparr>],
     users := [ex_user],
     memberships := [\<lparr>m_tenantId = ex_tid, m_userId = ex_uid, m_role = MEMBER, m_status = PENDING\<rparr>],
     invitations := [ex_sent]\<rparr>"

text \<open>A store in which Bob already has an unexpired SENT invitation to the tenant.\<close>

definition ex_dup_db :: db where
  "ex_dup_db = ex_db0\<lparr>tenants := [ex_tenant], invitations := [ex_sent]\<rparr>"

definition ex_accept_req :: join_request where
  "ex_accept_req = \<lparr>jq_user = Some \<lparr>sub = ex_uid, globalRole = USER\<rparr>, jq_slug = ''acme'',
     jq_inviteToken = ''tok-1'', jq_fullName = [], jq_phone = [], jq_customFields = []\<rparr>"

text \<open>A tenant open to public signup in which the user is an active ADMIN, and a direct
  join request (no invitation token) of that user.\<close>

definition ex_admin_db :: db where
  "ex_admin_db = ex_db0\<lparr>
     tenants := [ex_tenant],
     settingsRows := [\<lparr>s_tenantId = ex_tid, s_approvalRequired = False, s_publicSignup = True\<rparr>],
     users := [ex_user],
     memberships := [\<lparr>m_tenantId = ex_tid, m_userId = ex_uid, m_role = ADMIN, m_status = ACTIVE\<rparr>]\<rparr>"

definition ex_direct_req :: join_request where
  "ex_direct_req = \<lparr>jq_user = Some \<lparr>sub = ex_uid, globalRole = USER\<rparr>, jq_slug = ''acme'',
     jq_inviteToken = [], jq_fullName = ''Bob'', jq_phone = ''1'', jq_customFields = []\<rparr>"

section \<open>The membership invariant\<close>

definition memberKey :: "membership \<Rightarrow> oid \<times> oid" where
  "memberKey m = (m_tenantId m, m_userId m)"

definition uniqueMemberships :: "db \<Rightarrow> bool" where
  "uniqueMemberships d = distinct (map memberKey (memberships d))"

section \<open>Properties\<close>

text \<open>C4: the reported invitation status depends only on the stored status, the stored
  expiry and the current time. A stored REVOKED gives REVOKED and a stored ACCEPTED gives
  ACCEPTED whatever the expiry; any other stored status gives EXPIRED when the expiry is
  strictly before now and SENT otherwise.\<close>

theorem C4_normalizeInvitationStatus:
  "normalizeInvitationStatus now ''REVOKED'' e = ''REVOKED''
   \<and> normalizeInvitationStatus now ''ACCEPTED'' e = ''ACCEPTED''
   \<and> normalizeInvitationStatus now st e =
       (if st = ''REVOKED'' then ''REVOKED''
        else if st = ''ACCEPTED'' then ''ACCEPTED''
        else if e < now then ''EXPIRED'' else ''SENT'')"
  by (simp add: normalizeInvitationStatus_def)

subsection \<open>Facts about the example data\<close>

lemma hexOid_ex_tid [simp]: "hexOid ex_tid = Some ex_tid"
  by code_simp

lemma hexOid_ex_tid2 [simp]: "hexOid ex_tid2 = Some ex_tid2"
  by code_simp

lemma hexOid_ex_tid2_upper [simp]: "hexOid ex_tid2_upper = Some ex_tid2"
  by code_simp

lemma hexOid_ex_uid [simp]: "hexOid ex_uid = Some ex_uid"
  by code_simp

lemma hexOid_ex_iid [simp]: "hexOid ex_iid = Some ex_iid"
  by code_simp

lemma hexOid_ex_fid [simp]: "hexOid ex_fid = Some ex_fid"
  by code_simp

lemma js_trim_ex [simp]:
  "js_trim ex_tid = ex_tid" "js_trim ex_tid2 = ex_tid2" "js_trim ex_tid2_upper = ex_tid2_upper"
  by (simp_all add: js_trim_def is_ws_def ex_tid_def ex_tid2_def ex_tid2_upper_def)

lemma ex_neq [simp]:
  "ex_tid \<noteq> ex_tid2" "ex_tid2 \<noteq> ex_tid" "ex_tid \<noteq> []" "ex_tid2 \<noteq> []"
  "ex_fid \<noteq> []" "ex_uid \<noteq> []" "ex_tid2_upper \<noteq> []" "ex_tid2_upper \<noteq> ex_tid2"
  by (simp_all add: ex_tid_def ex_tid2_def ex_fid_def ex_uid_def ex_tid2_upper_def)

subsection \<open>Tenant resolution and the role gate\<close>

lemma tenantIdRaw_path:
  "params_tenantId r = Some T \<Longrightarrow>
     tenantIdRaw (r\<lparr>body_tenantId := b, query_tenantId := q\<rparr>) = T"
  "params_tenantId r = None \<Longrightarrow> params_id r = Some T \<Longrightarrow>
     tenantIdRaw (r\<lparr>body_tenantId := b, query_tenantId := q\<rparr>) = T"
  by (simp_all add: tenantIdRaw_def)

text \<open>Without any path parameter the body is consulted first, then the query.\<close>

lemma tenantIdRaw_fallback:
  "params_tenantId r = None \<Longrightarrow> params_id r = None \<Longrightarrow> body_tenantId r = JVal s \<Longrightarrow>
     tenantIdRaw r = s"
  "params_tenantId r = None \<Longrightarrow> params_id r = None \<Longrightarrow>
     body_tenantId r = JUndefined \<or> body_tenantId r = JNull \<Longrightarrow>
     query_tenantId r = JVal s \<Longrightarrow> tenantIdRaw r = s"
  by (auto simp: tenantIdRaw_def)

text \<open>C1: when the path carries a tenant identifier T1 (the route parameter
  \<open>tenantId\<close>, or else the route parameter \<open>id\<close>), the identifier the gate resolves and
  uses for its membership lookup is T1 (trimmed), whatever the body and the query hold:
  replacing the body and query values changes neither the resolved identifier nor the
  decision of the gate.\<close>

theorem C1_path_tenant_wins:
  assumes "params_tenantId r = Some T1 \<or> (params_tenantId r = None \<and> params_id r = Some T1)"
  shows "tenantIdStr (r\<lparr>body_tenantId := b, query_tenantId := q\<rparr>) = js_trim T1
     \<and> requireTenantRole C roles (r\<lparr>body_tenantId := b, query_tenantId := q\<rparr>) d
         = requireTenantRole C roles r d"
proof -
  have raw: "tenantIdRaw (r\<lparr>body_tenantId := b, query_tenantId := q\<rparr>) = T1"
    using assms tenantIdRaw_path by blast
  have raw0: "tenantIdRaw r = T1"
    using assms by (auto simp: tenantIdRaw_def)
  have str: "tenantIdStr (r\<lparr>body_tenantId := b, query_tenantId := q\<rparr>) = tenantIdStr r"
    by (simp add: tenantIdStr_def raw raw0)
  have gate: "requireTenantRole C roles (r\<lparr>body_tenantId := b, query_tenantId := q\<rparr>) d
         = requireTenantRole C roles r d"
    by (cases "req_user r") (simp_all add: requireTenantRole_def str)
  show ?thesis
    using gate by (simp add: tenantIdStr_def raw)
qed

theorem C1_path_tenant_wins_witness:
  "tenantIdStr (ex_gate_req\<lparr>body_tenantId := JVal ex_tid2, query_tenantId := JVal ex_tid2\<rparr>)
     = ex_tid
   \<and> requireTenantRole hexOid [OWNER]
        (ex_gate_req\<lparr>body_tenantId := JVal ex_tid2, query_tenantId := JVal ex_tid2\<rparr>) ex_gate_db
      = (Fail (AppError ''Forbidden'' 403 ''FORBIDDEN''), ex_gate_db)"
proof -
  have h: "params_tenantId ex_gate_req = Some ex_tid \<or>
           (params_tenantId ex_gate_req = None \<and> params_id ex_gate_req = Some ex_tid)"
    by (simp add: ex_gate_req_def)
  have g: "requireTenantRole hexOid [OWNER] ex_gate_req ex_gate_db
      = (Fail (AppError ''Forbidden'' 403 ''FORBIDDEN''), ex_gate_db)"
    by (simp add: requireTenantRole_def tenantIdStr_def tenantIdRaw_def ex_gate_req_def
        ex_gate_db_def ex_db0_def findActiveMembership_def)
  show ?thesis
    using C1_path_tenant_wins [OF h, of "JVal ex_tid2" "JVal ex_tid2" hexOid "[OWNER]" ex_gate_db] g
    by simp
qed





subsection \<open>Tenant files\<close>

lemma ensureMembership_files [simp]:
  "ensureMembership C t u (d\<lparr>files := fs\<rparr>) = ensureMembership C t u d"
  by (simp add: ensureMembership_def split: option.splits)

lemma find_filter_out: "find (\<lambda>f. fd_id f = k) (filter (\<lambda>f. fd_id f \<noteq> k) fs) = None"
  by (simp add: find_None_iff)

text \<open>C3: for a download by an active member of the requested tenant, when the stored
  file exists and the text of its tenant tag differs from the requested tenant
  identifier, the operation fails with 404 NOT_FOUND and the message "File not found";
  this is the very failure produced when no file with that identifier is stored, so the
  response carries neither the content type nor the size of the file.\<close>

theorem C3_cross_tenant_file_not_found:
  assumes "ensureMembership C tenantId userSub d = None"
    and "fileId \<noteq> []" and "C fileId = Some fid" and "connected d"
    and "find (\<lambda>f. fd_id f = fid) (files d) = Some fileDoc"
    and "js_String (fd_metaTenantId fileDoc) \<noteq> tenantId"
  shows "getTenantFile C tenantId fileId userSub d
           = Inl \<lparr>f_status = 404, f_code = ''NOT_FOUND'', f_message = ''File not found''\<rparr>
       \<and> getTenantFile C tenantId fileId userSub d
           = getTenantFile C tenantId fileId userSub
               (d\<lparr>files := filter (\<lambda>f. fd_id f \<noteq> fid) (files d)\<rparr>)"
proof -
  have here: "getTenantFile C tenantId fileId userSub d
      = Inl (AppError ''File not found'' 404 ''NOT_FOUND'')"
    using assms by (simp add: getTenantFile_def)
  have gone: "getTenantFile C tenantId fileId userSub
               (d\<lparr>files := filter (\<lambda>f. fd_id f \<noteq> fid) (files d)\<rparr>)
              = Inl (AppError ''File not found'' 404 ''NOT_FOUND'')"
    using assms(1-4) by (simp add: getTenantFile_def find_filter_out)
  show ?thesis
    using here gone by (simp add: AppError_def)
qed

theorem C3_cross_tenant_file_not_found_witness:
  "getTenantFile hexOid ex_tid ex_fid ex_uid ex_file_db
     = Inl \<lparr>f_status = 404, f_code = ''NOT_FOUND'', f_message = ''File not found''\<rparr>
   \<and> getTenantFile hexOid ex_tid ex_fid ex_uid (ex_file_db\<lparr>files := []\<rparr>)
     = Inl \<lparr>f_status = 404, f_code = ''NOT_FOUND'', f_message = ''File not found''\<rparr>"
proof -
  have m: "ensureMembership hexOid ex_tid ex_uid ex_file_db = None"
    by (simp add: ensureMembership_def findActiveMembership_def ex_file_db_def ex_db0_def)
  have c: "connected ex_file_db" by (simp add: ex_file_db_def ex_db0_def)
  have f: "find (\<lambda>f. fd_id f = ex_fid) (files ex_file_db)
             = Some \<lparr>fd_id = ex_fid, fd_contentType = ''image/png'', fd_length = 4,
                     fd_metaTenantId = JVal ex_tid2, fd_data = ''DATA''\<rparr>"
    by (simp add: ex_file_db_def ex_db0_def)
  have t: "js_String (fd_metaTenantId \<lparr>fd_id = ex_fid, fd_contentType = ''image/png'',
             fd_length = 4, fd_metaTenantId = JVal ex_tid2, fd_data = ''DATA''\<rparr>) \<noteq> ex_tid"
    by (simp add: js_String_def)
  have e: "filter (\<lambda>f. fd_id f \<noteq> ex_fid) (files ex_file_db) = []"
    by (simp add: ex_file_db_def ex_db0_def)
  show ?thesis
    using C3_cross_tenant_file_not_found
      [where C = hexOid and tenantId = ex_tid and userSub = ex_uid and d = ex_file_db
         and fileId = ex_fid and fid = ex_fid, OF m _ _ c f t]
    by (auto simp: e)
qed

subsection \<open>Member role updates\<close>

lemma find_updateFirst:
  "find P xs = Some x \<Longrightarrow> P (f x) \<Longrightarrow> find P (updateFirst P f xs) = Some (f x)"
  by (induction xs) (auto split: if_splits)

text \<open>C10: when \<open>updateMemberRole\<close> is called for an existing membership of
  (tenant, user) and the body has no (or a falsy) status, the membership is returned and
  stored with status ACTIVE, whatever its status was before.\<close>

theorem C10_role_update_activates:
  assumes "C tenantId = Some tid" and "C userId = Some uid"
    and "find (\<lambda>m. m_tenantId m = tid \<and> m_userId m = uid) (memberships d) = Some m"
  shows "fst (updateMemberRole C tenantId userId bodyRole None d)
           = Inr (m\<lparr>m_role := (case bodyRole of Some r \<Rightarrow> r | None \<Rightarrow> m_role m),
                    m_status := ACTIVE\<rparr>)
       \<and> find (\<lambda>m. m_tenantId m = tid \<and> m_userId m = uid)
           (memberships (snd (updateMemberRole C tenantId userId bodyRole None d)))
           = Some (m\<lparr>m_role := (case bodyRole of Some r \<Rightarrow> r | None \<Rightarrow> m_role m),
                      m_status := ACTIVE\<rparr>)"
proof -
  let ?P = "\<lambda>m. m_tenantId m = tid \<and> m_userId m = uid"
  let ?f = "\<lambda>m. m\<lparr>m_role := (case bodyRole of Some r \<Rightarrow> r | None \<Rightarrow> m_role m),
                   m_status := ACTIVE\<rparr>"
  have Pm: "?P m" using assms(3) by (auto simp: find_Some_iff)
  then have "?P (?f m)" by simp
  then have "find ?P (updateFirst ?P ?f (memberships d)) = Some (?f m)"
    using assms(3) find_updateFirst [of ?P "memberships d" m ?f] by blast
  then show ?thesis
    using assms by (simp add: updateMemberRole_def)
qed

theorem C10_role_update_activates_witness:
  "fst (updateMemberRole hexOid ex_tid ex_uid (Some MODERATOR) None ex_member_db)
     = Inr \<lparr>m_tenantId = ex_tid, m_userId = ex_uid, m_role = MODERATOR, m_status = ACTIVE\<rparr>"
proof -
  have f: "find (\<lambda>m. m_tenantId m = ex_tid \<and> m_userId m = ex_uid) (memberships ex_member_db)
      = Some \<lparr>m_tenantId = ex_tid, m_userId = ex_uid, m_role = MEMBER, m_status = SUSPENDED\<rparr>"
    by (simp add: ex_member_db_def ex_db0_def)
  show ?thesis
    using C10_role_update_activates
      [where C = hexOid and tenantId = ex_tid and userId = ex_uid and d = ex_member_db
         and tid = ex_tid and uid = ex_uid and bodyRole = "Some MODERATOR", OF _ _ f]
    by simp
qed

subsection \<open>Invitations\<close>

lemma js_trim_Nil [simp]: "js_trim [] = []"
  by (simp add: js_trim_def)

lemma find_saveInvitation_id:
  "find (\<lambda>i. i_id i = k \<and> Q i) xs = Some x \<Longrightarrow> i_id y = k \<Longrightarrow> Q y \<Longrightarrow>
     find (\<lambda>i. i_id i = k \<and> Q i) (saveInvitation y xs) = Some y"
  by (induction xs) (auto simp: saveInvitation_def split: if_splits)

lemma normalize_ACCEPTED_iff:
  "normalizeInvitationStatus now st e = ''ACCEPTED'' \<longleftrightarrow> st = ''ACCEPTED''"
  by (simp add: normalizeInvitationStatus_def)

lemma derived_SENT_iff:
  "st \<in> {''SENT'', ''PENDING'', ''ACCEPTED'', ''REVOKED''} \<Longrightarrow>
     normalizeInvitationStatus now st e = ''SENT'' \<longleftrightarrow>
       (st = ''SENT'' \<or> st = ''PENDING'') \<and> now \<le> e"
  by (auto simp: normalizeInvitationStatus_def)

text \<open>C8: for an invitation found by (id, tenant), resending fails with 400
  INVALID_STATE exactly when its derived status is ACCEPTED, and then changes nothing. In
  every other state, REVOKED and EXPIRED included, it succeeds: the invitation is returned
  and stored with the new token, stored status SENT, both revocation fields cleared and
  the expiry seven days after now, so its derived status is SENT.\<close>

theorem C8_resend:
  assumes "C invId = Some iid" and "C tenantId = Some tid"
    and "find (\<lambda>i. i_id i = iid \<and> i_tenantId i = tid) (invitations d) = Some ex"
  shows "(let r = ex\<lparr>i_token := token, i_status := ''SENT'', i_revokedAt := None,
                    i_revokedByUserId := None, i_expiresAt := now + 7 * dayMs\<rparr>;
              res = resendInvitation C now token tenantId invId d
          in (fst res = Inl (AppError ''Cannot resend an accepted invitation'' 400 ''INVALID_STATE'')
                \<longleftrightarrow> normalizeInvitationStatus now (i_status ex) (i_expiresAt ex) = ''ACCEPTED'')
           \<and> (if normalizeInvitationStatus now (i_status ex) (i_expiresAt ex) = ''ACCEPTED''
              then snd res = d
              else fst res = Inr r
                 \<and> find (\<lambda>i. i_id i = iid \<and> i_tenantId i = tid) (invitations (snd res))
                     = Some r)
           \<and> now < i_expiresAt r
           \<and> normalizeInvitationStatus now (i_status r) (i_expiresAt r) = ''SENT'')"
proof -
  let ?Q = "\<lambda>i. i_tenantId i = tid"
  let ?r = "ex\<lparr>i_token := token, i_status := ''SENT'', i_revokedAt := None,
               i_revokedByUserId := None, i_expiresAt := now + 7 * dayMs\<rparr>"
  have ex: "i_id ex = iid" "?Q ex"
    using assms(3) by (auto simp: find_Some_iff)
  have saved: "find (\<lambda>i. i_id i = iid \<and> ?Q i) (saveInvitation ?r (invitations d)) = Some ?r"
    using find_saveInvitation_id [of iid ?Q "invitations d" ex ?r] assms(3) ex
    by simp
  have norm: "normalizeInvitationStatus now ''SENT'' (now + 7 * dayMs) = ''SENT''"
    by (simp add: normalizeInvitationStatus_def dayMs_def)
  have run: "i_status ex \<noteq> ''ACCEPTED'' \<Longrightarrow>
      resendInvitation C now token tenantId invId d
        = (Inr ?r, d\<lparr>invitations := saveInvitation ?r (invitations d)\<rparr>)"
    using assms norm by (simp add: resendInvitation_def dayMs_def Let_def)
  have stop: "i_status ex = ''ACCEPTED'' \<Longrightarrow>
      resendInvitation C now token tenantId invId d
        = (Inl (AppError ''Cannot resend an accepted invitation'' 400 ''INVALID_STATE''), d)"
    using assms by (simp add: resendInvitation_def)
  show ?thesis
  proof (cases "i_status ex = ''ACCEPTED''")
    case True
    then show ?thesis
      using stop norm by (simp add: normalize_ACCEPTED_iff Let_def) (simp add: dayMs_def)
  next
    case False
    then show ?thesis
      using run saved norm by (simp add: normalize_ACCEPTED_iff Let_def) (simp add: dayMs_def)
  qed
qed

theorem C8_resend_witness:
  "fst (resendInvitation hexOid 1000 ''tok-2'' ex_tid ex_iid ex_inv_db)
     = Inr (ex_revoked\<lparr>i_token := ''tok-2'', i_status := ''SENT'', i_revokedAt := None,
              i_revokedByUserId := None, i_expiresAt := 1000 + 7 * dayMs\<rparr>)"
proof -
  have f: "find (\<lambda>i. i_id i = ex_iid \<and> i_tenantId i = ex_tid) (invitations ex_inv_db)
             = Some ex_revoked"
    by (simp add: ex_inv_db_def ex_db0_def ex_revoked_def)
  have n: "normalizeInvitationStatus 1000 (i_status ex_revoked) (i_expiresAt ex_revoked)
             \<noteq> ''ACCEPTED''"
    by (simp add: normalizeInvitationStatus_def ex_revoked_def)
  show ?thesis
    using C8_resend [where C = hexOid and invId = ex_iid and tenantId = ex_tid
        and iid = ex_iid and tid = ex_tid and d = ex_inv_db and ex = ex_revoked
        and now = 1000 and token = "''tok-2''", OF _ _ f] n
    by (simp add: Let_def)
qed

subsection \<open>Creating invitations\<close>

lemma lower_ex: "js_trim (js_toLowerCase '' Bob@X.io'') = ''bob@x.io''"
  by code_simp

text \<open>\<open>createInvitation\<close> answers 409 exactly when an invitation of the same tenant and
  the same lower-cased, trimmed email is stored with status SENT or PENDING and an expiry
  not before now.\<close>

lemma createInvitation_conflict_iff:
  assumes "C tenantId = Some tid"
  shows "fst (createInvitation C P now token newId tenantId userSub body d)
           = Inl (AppError ''An active invitation already exists for this email'' 409
                    ''INVITATION_EXISTS'')
         \<longleftrightarrow> (\<exists>i \<in> set (invitations d). i_tenantId i = tid
                \<and> i_email i = js_trim (js_toLowerCase (js_String (ib_email body)))
                \<and> (i_status i = ''SENT'' \<or> i_status i = ''PENDING'') \<and> now \<le> i_expiresAt i)"
proof -
  let ?P = "\<lambda>i. i_tenantId i = tid
      \<and> i_email i = js_trim (js_toLowerCase (js_String (ib_email body)))
      \<and> (i_status i = ''SENT'' \<or> i_status i = ''PENDING'') \<and> now \<le> i_expiresAt i"
  show ?thesis
  proof (cases "find ?P (invitations d)")
    case None
    then have "\<not> (\<exists>i \<in> set (invitations d). ?P i)"
      by (simp add: find_None_iff)
    then show ?thesis
      using None assms
      by (simp add: createInvitation_def Let_def AppError_def internalError_def
          split: option.splits)
  next
    case (Some a)
    then have "\<exists>i \<in> set (invitations d). ?P i"
      by (auto simp: find_Some_iff)
    then show ?thesis
      using Some assms by (simp add: createInvitation_def Let_def)
  qed
qed

text \<open>The number of days after clamping is not-a-number or lies between 1 and 30.\<close>

lemma clamp_cases:
  "js_max 1 (js_min 30 n) = NaN \<or> (\<exists>q. js_max 1 (js_min 30 n) = Fin q \<and> 1 \<le> q \<and> q \<le> 30)"
  by (cases n) (auto simp: js_max_def js_min_def)

lemma truncate_bounds:
  assumes "1 \<le> q" and "q \<le> 30"
  shows "now + dayMs \<le> js_truncate (of_int now + q * of_int dayMs)
       \<and> js_truncate (of_int now + q * of_int dayMs) \<le> now + 30 * dayMs"
proof -
  have d: "(0::rat) < of_int dayMs" by (simp add: dayMs_def)
  have lo: "(of_int (now + dayMs) :: rat) \<le> of_int now + q * of_int dayMs"
    using assms(1) d by (simp add: mult_le_cancel_right1)
  have hi: "of_int now + q * of_int dayMs \<le> (of_int (now + 30 * dayMs) :: rat)"
    using assms(2) d by simp
  have "now + dayMs \<le> \<lfloor>of_int now + q * of_int dayMs\<rfloor>"
    using lo by (simp add: le_floor_iff)
  moreover have "\<lceil>of_int now + q * of_int dayMs\<rceil> \<le> now + 30 * dayMs"
    using hi by (simp add: ceiling_le_iff)
  moreover have "\<lfloor>of_int now + q * of_int dayMs\<rfloor> \<le> \<lceil>of_int now + q * of_int dayMs\<rceil>"
    by (rule floor_le_ceiling)
  ultimately show ?thesis
    by (auto simp: js_truncate_def)
qed

text \<open>A created invitation expires between 1 and 30 days after now.\<close>

lemma createInvitation_expiry_bounds:
  assumes "fst (createInvitation C P now token newId tenantId userSub body d) = Inr row"
  shows "now + dayMs \<le> i_expiresAt row \<and> i_expiresAt row \<le> now + 30 * dayMs"
proof -
  let ?n = "js_max 1 (js_min 30 (ttlDays P (ib_expiresInDays body)))"
  from clamp_cases [of "ttlDays P (ib_expiresInDays body)"]
  show ?thesis
  proof
    assume "?n = NaN"
    then show ?thesis
      using assms
      by (simp add: createInvitation_def Let_def expiryDate_def split: option.splits)
  next
    assume "\<exists>q. ?n = Fin q \<and> 1 \<le> q \<and> q \<le> 30"
    then obtain q where q: "?n = Fin q" "1 \<le> q" "q \<le> 30" by blast
    have "i_expiresAt row = js_truncate (of_int now + q * of_int dayMs)"
      using assms q(1)
      by (auto simp: createInvitation_def Let_def expiryDate_def split: option.splits)
    then show ?thesis
      using truncate_bounds [OF q(2,3), of now] by simp
  qed
qed

text \<open>What a request for a number of days gives on an empty store: the number 0 is falsy
  and gives the default of 7 days; the text "0" is truthy and is clamped to 1 day; one
  and a half days are kept; text that is no number makes the creation fail with 500.\<close>

lemma createInvitation_zero_days:
  "i_expiresAt (projr (fst (createInvitation hexOid decimalNumber 1000 ''tok-3'' ex_iid ex_tid
      ex_uid ex_body ex_db0))) = 1000 + 7 * dayMs"
  by (simp add: createInvitation_def ex_body_def ex_db0_def ttlDays_def truthy_def
      js_Number_def js_max_def js_min_def expiryDate_def js_truncate_def dayMs_def Let_def)

lemma decimalNumber_0: "decimalNumber ''0'' = Fin 0"
  by code_simp

lemma decimalNumber_abc: "decimalNumber ''abc'' = NaN"
  by code_simp

lemma createInvitation_text_zero:
  "i_expiresAt (projr (fst (createInvitation hexOid decimalNumber 1000 ''tok-3'' ex_iid ex_tid
      ex_uid (ex_body\<lparr>ib_expiresInDays := VString ''0''\<rparr>) ex_db0))) = 1000 + 1 * dayMs"
  by (simp add: createInvitation_def ex_body_def ex_db0_def ttlDays_def truthy_def
      js_Number_def js_max_def js_min_def expiryDate_def js_truncate_def dayMs_def Let_def
      decimalNumber_0)

lemma createInvitation_fraction:
  "i_expiresAt (projr (fst (createInvitation hexOid decimalNumber 1000 ''tok-3'' ex_iid ex_tid
      ex_uid (ex_body\<lparr>ib_expiresInDays := VNumber (Fin (3 / 2))\<rparr>) ex_db0))) = 1000 + 129600000"
  by (simp add: createInvitation_def ex_body_def ex_db0_def ttlDays_def truthy_def
      js_Number_def js_max_def js_min_def expiryDate_def js_truncate_def dayMs_def Let_def)

lemma createInvitation_not_a_number:
  "createInvitation hexOid decimalNumber 1000 ''tok-3'' ex_iid ex_tid
      ex_uid (ex_body\<lparr>ib_expiresInDays := VString ''abc''\<rparr>) ex_db0
     = (Inl internalError, ex_db0)"
  by (simp add: createInvitation_def ex_body_def ex_db0_def ttlDays_def truthy_def
      js_Number_def js_max_def js_min_def expiryDate_def Let_def decimalNumber_abc)

text \<open>C6 on \<open>inviteMember\<close>: while an unexpired SENT invitation for the same tenant and
  the same lower-cased email is stored, \<open>createInvitation\<close> answers 409
  INVITATION_EXISTS, but \<open>inviteMember\<close> succeeds and stores a second invitation for the
  pair; its expiry is seven days after now whatever the request asks for.\<close>

theorem C6_inviteMember_duplicates:
  assumes "C tenantId = Some tid" and "C userSub = Some uid"
    and "find (\<lambda>t. t_id t = tid) (tenants d) = Some tenant"
    and "i \<in> set (invitations d)" and "i_tenantId i = tid"
    and "i_email i = js_trim (js_toLowerCase (js_String (ib_email body)))"
    and "i_status i = ''SENT''" and "now \<le> i_expiresAt i"
  shows "(let row = \<lparr>i_id = newId, i_tenantId = tid,
                     i_email = js_trim (js_toLowerCase (js_String (ib_email body))),
                     i_phone = js_trim (ib_phone body),
                     i_role = (case ib_role body of Some r \<Rightarrow> r | None \<Rightarrow> MEMBER),
                     i_status = ''SENT'', i_token = token, i_expiresAt = now + 7 * dayMs,
                     i_invitedBy = uid, i_acceptedByUserId = None, i_acceptedAt = None,
                     i_revokedByUserId = None, i_revokedAt = None\<rparr>
          in createInvitation C P now token newId tenantId userSub body d
               = (Inl (AppError ''An active invitation already exists for this email'' 409
                         ''INVITATION_EXISTS''), d)
           \<and> inviteMember C now token newId tenantId userSub body d
               = (Inr (row, ''/c/'' @ t_slug tenant @ ''/join?invite='' @ token),
                  d\<lparr>invitations := invitations d @ [row]\<rparr>)
           \<and> normalizeInvitationStatus now (i_status i) (i_expiresAt i) = ''SENT''
           \<and> normalizeInvitationStatus now (i_status row) (i_expiresAt row) = ''SENT'')"
proof -
  let ?P = "\<lambda>i. i_tenantId i = tid
      \<and> i_email i = js_trim (js_toLowerCase (js_String (ib_email body)))
      \<and> (i_status i = ''SENT'' \<or> i_status i = ''PENDING'') \<and> now \<le> i_expiresAt i"
  have "\<exists>x \<in> set (invitations d). ?P x"
    using assms(4-8) by blast
  then obtain a where a: "find ?P (invitations d) = Some a"
    by (cases "find ?P (invitations d)") (auto simp: find_None_iff)
  have conflict: "createInvitation C P now token newId tenantId userSub body d
      = (Inl (AppError ''An active invitation already exists for this email'' 409
                ''INVITATION_EXISTS''), d)"
    using a assms(1) by (simp add: createInvitation_def Let_def)
  have tid: "t_id tenant = tid"
    using assms(3) by (auto simp: find_Some_iff)
  have norm: "normalizeInvitationStatus now ''SENT'' (now + 7 * dayMs) = ''SENT''"
    by (simp add: normalizeInvitationStatus_def dayMs_def)
  have old: "normalizeInvitationStatus now (i_status i) (i_expiresAt i) = ''SENT''"
    using assms(7,8) by (simp add: normalizeInvitationStatus_def)
  have run: "inviteMember C now token newId tenantId userSub body d
      = (Inr (\<lparr>i_id = newId, i_tenantId = tid,
               i_email = js_trim (js_toLowerCase (js_String (ib_email body))),
               i_phone = js_trim (ib_phone body),
               i_role = (case ib_role body of Some r \<Rightarrow> r | None \<Rightarrow> MEMBER),
               i_status = ''SENT'', i_token = token, i_expiresAt = now + 7 * dayMs,
               i_invitedBy = uid, i_acceptedByUserId = None, i_acceptedAt = None,
               i_revokedByUserId = None, i_revokedAt = None\<rparr>,
              ''/c/'' @ t_slug tenant @ ''/join?invite='' @ token),
         d\<lparr>invitations := invitations d @
            [\<lparr>i_id = newId, i_tenantId = tid,
              i_email = js_trim (js_toLowerCase (js_String (ib_email body))),
              i_phone = js_trim (ib_phone body),
              i_role = (case ib_role body of Some r \<Rightarrow> r | None \<Rightarrow> MEMBER),
              i_status = ''SENT'', i_token = token, i_expiresAt = now + 7 * dayMs,
              i_invitedBy = uid, i_acceptedByUserId = None, i_acceptedAt = None,
              i_revokedByUserId = None, i_revokedAt = None\<rparr>]\<rparr>)"
    using assms(1-3) tid norm by (simp add: inviteMember_def Let_def dayMs_def)
  show ?thesis
    unfolding Let_def using conflict run old norm by simp
qed

theorem C6_inviteMember_duplicates_witness:
  "createInvitation hexOid decimalNumber 1000 ''tok-3'' ex_fid ex_tid ex_uid ex_body ex_dup_db
     = (Inl (AppError ''An active invitation already exists for this email'' 409
               ''INVITATION_EXISTS''), ex_dup_db)
   \<and> invitations (snd (inviteMember hexOid 1000 ''tok-3'' ex_fid ex_tid ex_uid ex_body ex_dup_db))
     = [ex_sent,
        \<lparr>i_id = ex_fid, i_tenantId = ex_tid, i_email = ''bob@x.io'', i_phone = [],
         i_role = MEMBER, i_status = ''SENT'', i_token = ''tok-3'',
         i_expiresAt = 1000 + 7 * dayMs, i_invitedBy = ex_uid, i_acceptedByUserId = None,
         i_acceptedAt = None, i_revokedByUserId = None, i_revokedAt = None\<rparr>]"
proof -
  have t: "find (\<lambda>t. t_id t = ex_tid) (tenants ex_dup_db) = Some ex_tenant"
    by (simp add: ex_dup_db_def ex_db0_def ex_tenant_def)
  have i: "ex_sent \<in> set (invitations ex_dup_db)"
    by (simp add: ex_dup_db_def ex_db0_def)
  have e: "i_email ex_sent = js_trim (js_toLowerCase (js_String (ib_email ex_body)))"
    by (simp add: ex_sent_def ex_body_def js_String_def lower_ex)
  have s: "i_tenantId ex_sent = ex_tid" "i_status ex_sent = ''SENT''"
    "(1000::int) \<le> i_expiresAt ex_sent"
    by (simp_all add: ex_sent_def)
  note R = C6_inviteMember_duplicates [where C = hexOid and P = decimalNumber
      and tenantId = ex_tid and tid = ex_tid and userSub = ex_uid and uid = ex_uid
      and d = ex_dup_db and tenant = ex_tenant and i = ex_sent and body = ex_body
      and now = 1000 and token = "''tok-3''" and newId = ex_fid,
      OF _ _ t i s(1) e s(2) s(3), unfolded Let_def]
  have inv: "invitations ex_dup_db = [ex_sent]"
    by (simp add: ex_dup_db_def ex_db0_def)
  have b: "js_trim (js_toLowerCase (js_String (ib_email ex_body))) = ''bob@x.io''"
    "js_trim (ib_phone ex_body) = []" "ib_role ex_body = None"
    by (simp_all add: ex_body_def js_String_def lower_ex)
  show ?thesis
    using R by (simp add: inv b)
qed

subsection \<open>Accepting an invitation\<close>

lemma find_upsertBy:
  "P new \<Longrightarrow> (\<And>x. P x \<Longrightarrow> P (f x)) \<Longrightarrow>
     find P (upsertBy P f new xs) = Some (case find P xs of Some x \<Rightarrow> f x | None \<Rightarrow> new)"
  by (induction xs) auto

lemma find_upsertMembership:
  "find (\<lambda>m. m_tenantId m = t \<and> m_userId m = u) (upsertMembership t u r st ms)
     = Some \<lparr>m_tenantId = t, m_userId = u, m_role = r, m_status = st\<rparr>"
  unfolding upsertMembership_def by (induction ms) auto

lemma find_saveUser:
  "find (\<lambda>x. u_id x = k) us = Some u \<Longrightarrow> u_id u' = k \<Longrightarrow>
     find (\<lambda>x. u_id x = k) (saveUser u' us) = Some u'"
  by (induction us) (auto simp: saveUser_def split: if_splits)

lemma find_saveInvitation:
  "find Q xs = Some x \<Longrightarrow> Q y \<Longrightarrow> i_id y = i_id x \<Longrightarrow>
     find Q (saveInvitation y xs) = Some y"
  by (induction xs) (auto simp: saveInvitation_def split: if_splits)

lemma lower_char_idem [simp]: "lower_char (lower_char c) = lower_char c"
proof -
  have "(of_char c :: nat) < 256" by simp
  then show ?thesis
    by (auto simp: lower_char_def Let_def)
qed

lemma js_toLowerCase_idem [simp]: "js_toLowerCase (js_toLowerCase s) = js_toLowerCase s"
  by (simp add: js_toLowerCase_def)

lemma lower_ACCEPTED: "js_toLowerCase ''ACCEPTED'' = ''accepted''"
  by code_simp

lemma join_with_invite:
  assumes "jq_user req = Some who" and "sub who \<noteq> []" and "C (sub who) = Some uid"
    and "find (\<lambda>t. t_slug t = js_toLowerCase (jq_slug req)) (tenants d) = Some tenant"
    and "find (\<lambda>u. u_id u = uid) (users d) = Some user"
    and "map_option m_status
           (find (\<lambda>m. m_tenantId m = t_id tenant \<and> m_userId m = uid) (memberships d))
         \<noteq> Some BANNED"
    and "js_trim (jq_inviteToken req) \<noteq> []"
    and "find (\<lambda>i. i_tenantId i = t_id tenant \<and> i_token i = js_trim (jq_inviteToken req))
           (invitations d) = Some iv"
  shows "joinTenantBySlug C now req d =
    (if normalizeInvitationStatus now (i_status iv) (i_expiresAt iv) \<noteq> ''SENT''
     then (Inl (AppError (''Invitation is '' @
                  js_toLowerCase (normalizeInvitationStatus now (i_status iv) (i_expiresAt iv)))
                  400 ''INVITATION_INVALID''), d)
     else if i_email iv \<noteq> js_toLowerCase (u_email user)
     then (Inl (AppError ''Invitation email does not match your account'' 403 ''FORBIDDEN''), d)
     else (Inr \<lparr>jr_membership = \<lparr>m_tenantId = t_id tenant, m_userId = uid,
                                  m_role = i_role iv, m_status = ACTIVE\<rparr>,
                jr_nextRoute = getMembershipRoute (t_slug tenant)
                                 \<lparr>m_tenantId = t_id tenant, m_userId = uid,
                                  m_role = i_role iv, m_status = ACTIVE\<rparr>,
                jr_pendingApproval = False\<rparr>,
           d\<lparr>memberships :=
                upsertMembership (t_id tenant) uid (i_role iv) ACTIVE (memberships d),
             profiles :=
                upsertProfile (t_id tenant) uid (js_trim (jq_fullName req))
                  (js_trim (jq_phone req)) (jq_customFields req) (profiles d),
             users :=
                (if js_trim (jq_fullName req) \<noteq> [] \<or> js_trim (jq_phone req) \<noteq> []
                 then saveUser
                        (user\<lparr>u_fullName := (if js_trim (jq_fullName req) \<noteq> []
                                              then js_trim (jq_fullName req) else u_fullName user),
                              u_phone := (if js_trim (jq_phone req) \<noteq> []
                                          then js_trim (jq_phone req) else u_phone user)\<rparr>)
                        (users d)
                 else users d),
             invitations :=
                saveInvitation (iv\<lparr>i_status := ''ACCEPTED'', i_acceptedByUserId := Some uid,
                                   i_acceptedAt := Some now\<rparr>) (invitations d)\<rparr>))"
proof (cases "find (\<lambda>m. m_tenantId m = t_id tenant \<and> m_userId m = uid) (memberships d)")
  case None
  then show ?thesis
    unfolding joinTenantBySlug_def Let_def
    using assms(1-5,7,8) by simp
next
  case (Some m)
  then have nb: "m_status m \<noteq> BANNED"
    using assms(6) by simp
  show ?thesis
    unfolding joinTenantBySlug_def Let_def
    using assms(1-5,7,8) Some nb by simp
qed

lemma lower_eq_imp:
  "a = js_toLowerCase b \<Longrightarrow> js_toLowerCase a = js_toLowerCase b"
  by simp

text \<open>C5: take a request to join by slug that carries an invitation token, from an
  authenticated user who exists and is not BANNED in the tenant, where the tenant and the
  invitation are found. If the derived status of the invitation is not SENT the request
  fails with 400 INVITATION_INVALID; if it is SENT and the invitation's email differs from
  the user's email when both are compared in lower case, it fails with 403 FORBIDDEN; so
  the request succeeds only when the status is SENT and the emails agree up to case.
  When they do (the stored invitation email being in lower case, as both operations that
  create invitations store it), the request succeeds: the user's membership in the tenant
  has the invitation's role and status ACTIVE, whatever the approval policy; the
  invitation is stored as ACCEPTED with the user and the time; and repeating the request
  at any later time fails with 400 INVITATION_INVALID.\<close>

theorem C5_accept_invitation:
  assumes "jq_user req = Some who" and "sub who \<noteq> []" and "C (sub who) = Some uid"
    and "find (\<lambda>t. t_slug t = js_toLowerCase (jq_slug req)) (tenants d) = Some tenant"
    and "find (\<lambda>u. u_id u = uid) (users d) = Some user"
    and "map_option m_status
           (find (\<lambda>m. m_tenantId m = t_id tenant \<and> m_userId m = uid) (memberships d))
         \<noteq> Some BANNED"
    and "js_trim (jq_inviteToken req) \<noteq> []"
    and "find (\<lambda>i. i_tenantId i = t_id tenant \<and> i_token i = js_trim (jq_inviteToken req))
           (invitations d) = Some iv"
  shows "(let st = normalizeInvitationStatus now (i_status iv) (i_expiresAt iv);
              res = joinTenantBySlug C now req d;
              mem = \<lparr>m_tenantId = t_id tenant, m_userId = uid, m_role = i_role iv,
                     m_status = ACTIVE\<rparr>;
              acc = iv\<lparr>i_status := ''ACCEPTED'', i_acceptedByUserId := Some uid,
                       i_acceptedAt := Some now\<rparr>
          in (st \<noteq> ''SENT'' \<longrightarrow>
                res = (Inl (AppError (''Invitation is '' @ js_toLowerCase st) 400
                              ''INVITATION_INVALID''), d))
           \<and> (st = ''SENT'' \<and> js_toLowerCase (i_email iv) \<noteq> js_toLowerCase (u_email user) \<longrightarrow>
                res = (Inl (AppError ''Invitation email does not match your account'' 403
                              ''FORBIDDEN''), d))
           \<and> (\<not> isl (fst res) \<longrightarrow>
                st = ''SENT'' \<and> js_toLowerCase (i_email iv) = js_toLowerCase (u_email user))
           \<and> (st = ''SENT'' \<and> js_toLowerCase (i_email iv) = js_toLowerCase (u_email user)
                \<and> i_email iv = js_toLowerCase (i_email iv) \<longrightarrow>
                \<not> isl (fst res)
                \<and> jr_membership (projr (fst res)) = mem
                \<and> find (\<lambda>m. m_tenantId m = t_id tenant \<and> m_userId m = uid)
                     (memberships (snd res)) = Some mem
                \<and> find (\<lambda>i. i_tenantId i = t_id tenant
                              \<and> i_token i = js_trim (jq_inviteToken req))
                     (invitations (snd res)) = Some acc
                \<and> (\<forall>now'. joinTenantBySlug C now' req (snd res)
                      = (Inl (AppError ''Invitation is accepted'' 400 ''INVITATION_INVALID''),
                         snd res))))"
proof -
  let ?st = "normalizeInvitationStatus now (i_status iv) (i_expiresAt iv)"
  let ?res = "joinTenantBySlug C now req d"
  let ?mem = "\<lparr>m_tenantId = t_id tenant, m_userId = uid, m_role = i_role iv,
                m_status = ACTIVE\<rparr>"
  let ?acc = "iv\<lparr>i_status := ''ACCEPTED'', i_acceptedByUserId := Some uid,
                  i_acceptedAt := Some now\<rparr>"
  let ?Qi = "\<lambda>i. i_tenantId i = t_id tenant \<and> i_token i = js_trim (jq_inviteToken req)"
  let ?Pm = "\<lambda>m. m_tenantId m = t_id tenant \<and> m_userId m = uid"
  note J = join_with_invite [where C = C and req = req and who = who and uid = uid and d = d
      and tenant = tenant and user = user and iv = iv and now = now, OF assms]
  have invalid: "?st \<noteq> ''SENT'' \<Longrightarrow>
      ?res = (Inl (AppError (''Invitation is '' @ js_toLowerCase ?st) 400
                     ''INVITATION_INVALID''), d)"
    using J by simp
  have mismatch: "?st = ''SENT'' \<Longrightarrow>
      js_toLowerCase (i_email iv) \<noteq> js_toLowerCase (u_email user) \<Longrightarrow>
      ?res = (Inl (AppError ''Invitation email does not match your account'' 403
                     ''FORBIDDEN''), d)"
  proof -
    assume s: "?st = ''SENT''"
      and ne: "js_toLowerCase (i_email iv) \<noteq> js_toLowerCase (u_email user)"
    from ne have "i_email iv \<noteq> js_toLowerCase (u_email user)"
      using lower_eq_imp by blast
    with s J show ?thesis by simp
  qed
  have only: "\<not> isl (fst ?res) \<Longrightarrow>
      ?st = ''SENT'' \<and> js_toLowerCase (i_email iv) = js_toLowerCase (u_email user)"
  proof -
    assume ok: "\<not> isl (fst ?res)"
    have s: "?st = ''SENT''"
      using ok invalid by (cases "?st = ''SENT''") auto
    have "i_email iv = js_toLowerCase (u_email user)"
      using ok s J by (cases "i_email iv = js_toLowerCase (u_email user)") auto
    then show ?thesis
      using s lower_eq_imp by blast
  qed
  have success: "?st = ''SENT'' \<Longrightarrow>
      js_toLowerCase (i_email iv) = js_toLowerCase (u_email user) \<Longrightarrow>
      i_email iv = js_toLowerCase (i_email iv) \<Longrightarrow>
      \<not> isl (fst ?res)
      \<and> jr_membership (projr (fst ?res)) = ?mem
      \<and> find ?Pm (memberships (snd ?res)) = Some ?mem
      \<and> find ?Qi (invitations (snd ?res)) = Some ?acc
      \<and> (\<forall>now'. joinTenantBySlug C now' req (snd ?res)
            = (Inl (AppError ''Invitation is accepted'' 400 ''INVITATION_INVALID''), snd ?res))"
  proof -
    assume s: "?st = ''SENT''"
      and eq: "js_toLowerCase (i_email iv) = js_toLowerCase (u_email user)"
      and low: "i_email iv = js_toLowerCase (i_email iv)"
    have em: "i_email iv = js_toLowerCase (u_email user)"
      using eq low by simp
    let ?fn = "js_trim (jq_fullName req)"
    let ?ph = "js_trim (jq_phone req)"
    let ?user' = "user\<lparr>u_fullName := (if ?fn \<noteq> [] then ?fn else u_fullName user),
                        u_phone := (if ?ph \<noteq> [] then ?ph else u_phone user)\<rparr>"
    let ?users' = "if ?fn \<noteq> [] \<or> ?ph \<noteq> [] then saveUser ?user' (users d) else users d"
    let ?d' = "d\<lparr>memberships :=
                   upsertMembership (t_id tenant) uid (i_role iv) ACTIVE (memberships d),
                 profiles := upsertProfile (t_id tenant) uid ?fn ?ph
                               (jq_customFields req) (profiles d),
                 users := ?users',
                 invitations := saveInvitation ?acc (invitations d)\<rparr>"
    have res: "?res = (Inr \<lparr>jr_membership = ?mem,
                            jr_nextRoute = getMembershipRoute (t_slug tenant) ?mem,
                            jr_pendingApproval = False\<rparr>, ?d')"
      using J s em by simp
    have Qiv: "?Qi iv" and idu: "u_id user = uid"
      using assms(5,8) by (auto simp: find_Some_iff)
    have mem': "find ?Pm (memberships ?d') = Some ?mem"
      by (simp add: find_upsertMembership)
    have inv': "find ?Qi (invitations ?d') = Some ?acc"
      using find_saveInvitation [of ?Qi "invitations d" iv ?acc] assms(8) Qiv by simp
    have "\<exists>u'. find (\<lambda>u. u_id u = uid) ?users' = Some u'"
      using assms(5) idu find_saveUser [of uid "users d" user ?user'] by simp
    then obtain u' where usr': "find (\<lambda>u. u_id u = uid) (users ?d') = Some u'"
      by auto
    have ten': "find (\<lambda>t. t_slug t = js_toLowerCase (jq_slug req)) (tenants ?d') = Some tenant"
      using assms(4) by simp
    have nb': "map_option m_status (find ?Pm (memberships ?d')) \<noteq> Some BANNED"
      using mem' by simp
    have again: "joinTenantBySlug C now' req ?d'
        = (Inl (AppError ''Invitation is accepted'' 400 ''INVITATION_INVALID''), ?d')" for now'
      using join_with_invite [where C = C and req = req and who = who and uid = uid and d = ?d'
          and tenant = tenant and user = u' and iv = ?acc and now = now',
          OF assms(1-3) ten' usr' nb' assms(7) inv']
      by (simp add: normalizeInvitationStatus_def lower_ACCEPTED)
    show ?thesis
      unfolding res using mem' inv' again by simp
  qed
  show ?thesis
    unfolding Let_def using invalid mismatch only success by blast
qed

text \<open>Both operations that create invitations store the email in lower case, and
  \<open>inviteMember\<close> performs no check for an outstanding invitation.\<close>

lemma set_js_trim: "set (js_trim s) \<subseteq> set s"
proof
  fix x assume "x \<in> set (js_trim s)"
  then have "x \<in> set (dropWhile is_ws (rev (dropWhile is_ws s)))"
    by (simp add: js_trim_def)
  then have "x \<in> set (dropWhile is_ws s)"
    using set_dropWhileD by fastforce
  then show "x \<in> set s"
    by (rule set_dropWhileD)
qed

lemma lower_trim_lower:
  "js_toLowerCase (js_trim (js_toLowerCase s)) = js_trim (js_toLowerCase s)"
proof -
  have "\<forall>c \<in> set (js_toLowerCase s). lower_char c = c"
    by (auto simp: js_toLowerCase_def)
  then have "\<forall>c \<in> set (js_trim (js_toLowerCase s)). lower_char c = c"
    using set_js_trim by blast
  then show ?thesis
    by (simp add: js_toLowerCase_def map_idI)
qed

lemma createInvitation_email_lower:
  "fst (createInvitation C P now token newId tenantId userSub body d) = Inr row \<Longrightarrow>
     js_toLowerCase (i_email row) = i_email row"
  by (auto simp: createInvitation_def Let_def lower_trim_lower split: if_splits option.splits)

lemma inviteMember_email_lower:
  "fst (inviteMember C now token newId tenantId userSub body d) = Inr (row, url) \<Longrightarrow>
     js_toLowerCase (i_email row) = i_email row"
  by (auto simp: inviteMember_def Let_def lower_trim_lower split: if_splits option.splits)

lemma inviteMember_no_conflict_check:
  "C tenantId = Some tid \<Longrightarrow> C userSub = Some uid \<Longrightarrow>
   find (\<lambda>t. t_id t = tid) (tenants d) = Some tenant \<Longrightarrow>
     \<not> isl (fst (inviteMember C now token newId tenantId userSub body d))"
  by (simp add: inviteMember_def Let_def)


lemma ex_lower_acme: "js_toLowerCase ''acme'' = ''acme''"
  by code_simp

lemma ex_trim_tok: "js_trim ''tok-1'' = ''tok-1''"
  by code_simp

lemma ex_lower_bob: "js_toLowerCase ''bob@x.io'' = ''bob@x.io''"
  by code_simp

lemma ex_trim_Bob: "js_trim ''Bob'' = ''Bob''"
  by code_simp

lemma ex_trim_1: "js_trim ''1'' = ''1''"
  by code_simp

lemmas ex_strings = ex_lower_acme ex_trim_tok ex_lower_bob ex_trim_Bob ex_trim_1

theorem C5_accept_invitation_witness:
  "jr_membership (projr (fst (joinTenantBySlug hexOid 1000 ex_accept_req ex_accept_db)))
     = \<lparr>m_tenantId = ex_tid, m_userId = ex_uid, m_role = MODERATOR, m_status = ACTIVE\<rparr>
   \<and> joinTenantBySlug hexOid 1500 ex_accept_req
        (snd (joinTenantBySlug hexOid 1000 ex_accept_req ex_accept_db))
     = (Inl (AppError ''Invitation is accepted'' 400 ''INVITATION_INVALID''),
        snd (joinTenantBySlug hexOid 1000 ex_accept_req ex_accept_db))"
proof -
  have h1: "jq_user ex_accept_req = Some \<lparr>sub = ex_uid, globalRole = USER\<rparr>"
    by (simp add: ex_accept_req_def)
  have h2: "sub \<lparr>sub = ex_uid, globalRole = USER\<rparr> \<noteq> []" by simp
  have h3: "hexOid (sub \<lparr>sub = ex_uid, globalRole = USER\<rparr>) = Some ex_uid" by simp
  have h4: "find (\<lambda>t. t_slug t = js_toLowerCase (jq_slug ex_accept_req)) (tenants ex_accept_db)
      = Some ex_tenant"
    by (simp add: ex_accept_req_def ex_accept_db_def ex_db0_def ex_tenant_def ex_strings)
  have h5: "find (\<lambda>u. u_id u = ex_uid) (users ex_accept_db)
      = Some ex_user"
    by (simp add: ex_accept_db_def ex_db0_def ex_user_def)
  have h6: "map_option m_status
      (find (\<lambda>m. m_tenantId m = t_id ex_tenant
                \<and> m_userId m = ex_uid)
         (memberships ex_accept_db)) \<noteq> Some BANNED"
    by (simp add: ex_accept_db_def ex_db0_def ex_tenant_def)
  have h7: "js_trim (jq_inviteToken ex_accept_req) \<noteq> []"
    by (simp add: ex_accept_req_def ex_strings)
  have h8: "find (\<lambda>i. i_tenantId i = t_id ex_tenant
                 \<and> i_token i = js_trim (jq_inviteToken ex_accept_req)) (invitations ex_accept_db)
      = Some ex_sent"
    by (simp add: ex_accept_req_def ex_accept_db_def ex_db0_def ex_tenant_def ex_sent_def
        ex_strings)
  have st: "normalizeInvitationStatus 1000 (i_status ex_sent) (i_expiresAt ex_sent) = ''SENT''"
    by (simp add: normalizeInvitationStatus_def ex_sent_def)
  have em: "js_toLowerCase (i_email ex_sent) = js_toLowerCase (u_email ex_user)"
    "i_email ex_sent = js_toLowerCase (i_email ex_sent)"
    by (simp_all add: ex_sent_def ex_user_def ex_strings)
  have pre: "normalizeInvitationStatus 1000 (i_status ex_sent) (i_expiresAt ex_sent) = ''SENT''
      \<and> js_toLowerCase (i_email ex_sent) = js_toLowerCase (u_email ex_user)
      \<and> i_email ex_sent = js_toLowerCase (i_email ex_sent)"
    using st em by blast
  note C = C5_accept_invitation [where C = hexOid and uid = ex_uid and req = ex_accept_req
        and d = ex_accept_db
        and who = "\<lparr>sub = ex_uid, globalRole = USER\<rparr>" and tenant = ex_tenant
        and user = ex_user and iv = ex_sent and now = 1000, OF h1 h2 h3 h4 h5 h6 h7 h8,
        unfolded Let_def]
  note S = C [THEN conjunct2, THEN conjunct2, THEN conjunct2, THEN mp, OF pre]
  have m: "jr_membership (projr (fst (joinTenantBySlug hexOid 1000 ex_accept_req ex_accept_db)))
      = \<lparr>m_tenantId = ex_tid, m_userId = ex_uid, m_role = MODERATOR, m_status = ACTIVE\<rparr>"
    using S [THEN conjunct2, THEN conjunct1] by (simp add: ex_tenant_def ex_sent_def)
  have again: "joinTenantBySlug hexOid 1500 ex_accept_req
        (snd (joinTenantBySlug hexOid 1000 ex_accept_req ex_accept_db))
     = (Inl (AppError ''Invitation is accepted'' 400 ''INVITATION_INVALID''),
        snd (joinTenantBySlug hexOid 1000 ex_accept_req ex_accept_db))"
    using S [THEN conjunct2, THEN conjunct2, THEN conjunct2, THEN conjunct2, THEN spec, of 1500]
    by simp
  show ?thesis
    using m again by (rule conjI)
qed

subsection \<open>Direct joins\<close>

text \<open>\<open>joinTenant\<close> returns an existing membership as it is and changes nothing; a
  new membership is a MEMBER, PENDING when the tenant requires approval and ACTIVE
  otherwise.\<close>

lemma joinTenant_existing_as_is:
  assumes "C tenantId = Some tid" and "C userSub = Some uid"
    and "find (\<lambda>t. t_id t = tid) (tenants d) = Some tenant"
    and "find (\<lambda>m. m_tenantId m = t_id tenant \<and> m_userId m = uid) (memberships d) = Some m"
  shows "joinTenant C tenantId userSub d = (Inr (m, 200), d)"
  using assms by (simp add: joinTenant_def Let_def)

lemma joinTenant_new:
  assumes "C tenantId = Some tid" and "C userSub = Some uid"
    and "find (\<lambda>t. t_id t = tid) (tenants d) = Some tenant"
    and "find (\<lambda>m. m_tenantId m = t_id tenant \<and> m_userId m = uid) (memberships d) = None"
  shows "joinTenant C tenantId userSub d =
     (Inr (\<lparr>m_tenantId = t_id tenant, m_userId = uid, m_role = MEMBER,
            m_status = (case find (\<lambda>s. s_tenantId s = t_id tenant) (settingsRows d) of
                          Some s \<Rightarrow> if s_approvalRequired s then PENDING else ACTIVE
                        | None \<Rightarrow> ACTIVE)\<rparr>, 201),
      d\<lparr>memberships := memberships d @
         [\<lparr>m_tenantId = t_id tenant, m_userId = uid, m_role = MEMBER,
           m_status = (case find (\<lambda>s. s_tenantId s = t_id tenant) (settingsRows d) of
                          Some s \<Rightarrow> if s_approvalRequired s then PENDING else ACTIVE
                        | None \<Rightarrow> ACTIVE)\<rparr>]\<rparr>)"
  using assms by (simp add: joinTenant_def Let_def approvalStatus_def)

text \<open>C7 on \<open>joinTenantBySlug\<close>: when a user who already holds a membership in the
  tenant (not BANNED) repeats a direct join, with no invitation token, public signup on
  and a name and phone given, the membership is not returned as it is. Its role is
  overwritten with MEMBER; its status is kept only when it was ACTIVE and is otherwise
  reset to what the approval policy gives a newcomer. The example shows an active ADMIN
  turned into a MEMBER.\<close>

theorem C7_join_by_slug_overwrites_role:
  assumes "jq_user req = Some who" and "sub who \<noteq> []" and "C (sub who) = Some uid"
    and "find (\<lambda>t. t_slug t = js_toLowerCase (jq_slug req)) (tenants d) = Some tenant"
    and "find (\<lambda>u. u_id u = uid) (users d) = Some user"
    and "find (\<lambda>m. m_tenantId m = t_id tenant \<and> m_userId m = uid) (memberships d) = Some m"
    and "m_status m \<noteq> BANNED"
    and "js_trim (jq_inviteToken req) = []"
    and "find (\<lambda>s. s_tenantId s = t_id tenant) (settingsRows d) = Some s"
    and "s_publicSignup s"
    and "js_trim (jq_fullName req) \<noteq> []" and "js_trim (jq_phone req) \<noteq> []"
  shows "jr_membership (projr (fst (joinTenantBySlug C now req d)))
           = \<lparr>m_tenantId = t_id tenant, m_userId = uid, m_role = MEMBER,
              m_status = (if m_status m = ACTIVE then ACTIVE
                          else if s_approvalRequired s then PENDING else ACTIVE)\<rparr>
       \<and> find (\<lambda>m. m_tenantId m = t_id tenant \<and> m_userId m = uid)
            (memberships (snd (joinTenantBySlug C now req d)))
           = Some \<lparr>m_tenantId = t_id tenant, m_userId = uid, m_role = MEMBER,
                   m_status = (if m_status m = ACTIVE then ACTIVE
                               else if s_approvalRequired s then PENDING else ACTIVE)\<rparr>"
  unfolding joinTenantBySlug_def Let_def
  using assms by (simp add: find_upsertMembership approvalStatus_def)

theorem C7_join_by_slug_overwrites_role_witness:
  "find (\<lambda>m. m_tenantId m = ex_tid \<and> m_userId m = ex_uid) (memberships ex_admin_db)
     = Some \<lparr>m_tenantId = ex_tid, m_userId = ex_uid, m_role = ADMIN, m_status = ACTIVE\<rparr>
   \<and> jr_membership (projr (fst (joinTenantBySlug hexOid 1000 ex_direct_req ex_admin_db)))
     = \<lparr>m_tenantId = ex_tid, m_userId = ex_uid, m_role = MEMBER, m_status = ACTIVE\<rparr>
   \<and> find (\<lambda>m. m_tenantId m = ex_tid \<and> m_userId m = ex_uid)
        (memberships (snd (joinTenantBySlug hexOid 1000 ex_direct_req ex_admin_db)))
     = Some \<lparr>m_tenantId = ex_tid, m_userId = ex_uid, m_role = MEMBER, m_status = ACTIVE\<rparr>"
proof -
  have h1: "jq_user ex_direct_req = Some \<lparr>sub = ex_uid, globalRole = USER\<rparr>"
    by (simp add: ex_direct_req_def)
  have h2: "sub \<lparr>sub = ex_uid, globalRole = USER\<rparr> \<noteq> []" by simp
  have h3: "hexOid (sub \<lparr>sub = ex_uid, globalRole = USER\<rparr>) = Some ex_uid" by simp
  have h4: "find (\<lambda>t. t_slug t = js_toLowerCase (jq_slug ex_direct_req)) (tenants ex_admin_db)
      = Some ex_tenant"
    by (simp add: ex_direct_req_def ex_admin_db_def ex_db0_def ex_tenant_def ex_strings)
  have h5: "find (\<lambda>u. u_id u = ex_uid) (users ex_admin_db)
      = Some ex_user"
    by (simp add: ex_admin_db_def ex_db0_def ex_user_def)
  have h6: "find (\<lambda>m. m_tenantId m = t_id ex_tenant
                \<and> m_userId m = ex_uid)
              (memberships ex_admin_db)
      = Some \<lparr>m_tenantId = ex_tid, m_userId = ex_uid, m_role = ADMIN, m_status = ACTIVE\<rparr>"
    by (simp add: ex_admin_db_def ex_db0_def ex_tenant_def)
  have h7: "m_status \<lparr>m_tenantId = ex_tid, m_userId = ex_uid, m_role = ADMIN,
                       m_status = ACTIVE\<rparr> \<noteq> BANNED"
    by simp
  have h8: "js_trim (jq_inviteToken ex_direct_req) = []"
    by (simp add: ex_direct_req_def)
  have h9: "find (\<lambda>s. s_tenantId s = t_id ex_tenant) (settingsRows ex_admin_db)
      = Some \<lparr>s_tenantId = ex_tid, s_approvalRequired = False, s_publicSignup = True\<rparr>"
    by (simp add: ex_admin_db_def ex_db0_def ex_tenant_def)
  have h10: "s_publicSignup \<lparr>s_tenantId = ex_tid, s_approvalRequired = False,
                              s_publicSignup = True\<rparr>"
    by simp
  have h11: "js_trim (jq_fullName ex_direct_req) \<noteq> []"
    and h12: "js_trim (jq_phone ex_direct_req) \<noteq> []"
    by (simp_all add: ex_direct_req_def ex_strings)
  note C = C7_join_by_slug_overwrites_role [where C = hexOid and uid = ex_uid
      and req = ex_direct_req
      and d = ex_admin_db and who = "\<lparr>sub = ex_uid, globalRole = USER\<rparr>"
      and tenant = ex_tenant and user = ex_user and now = 1000,
      OF h1 h2 h3 h4 h5 h6 h7 h8 h9 h10 h11 h12]
  have t: "t_id ex_tenant = ex_tid" by (simp add: ex_tenant_def)
  show ?thesis
    using C h6 by (simp add: t)
qed

subsection \<open>One membership per tenant and user\<close>

lemma memberKey_upsert:
  "map memberKey (upsertMembership t u r st ms)
     = (if (t, u) \<in> set (map memberKey ms) then map memberKey ms
        else map memberKey ms @ [(t, u)])"
  unfolding upsertMembership_def
  by (induction ms) (auto simp: memberKey_def)

lemma distinct_upsertMembership:
  "distinct (map memberKey ms) \<Longrightarrow> distinct (map memberKey (upsertMembership t u r st ms))"
  by (simp add: memberKey_upsert)

lemma find_key_None:
  "find (\<lambda>m. m_tenantId m = t \<and> m_userId m = u) ms = None \<Longrightarrow> (t, u) \<notin> set (map memberKey ms)"
  by (auto simp: find_None_iff memberKey_def)

lemma memberKey_new:
  "find (\<lambda>m. m_tenantId m = t \<and> m_userId m = u) ms = None \<Longrightarrow>
   memberKey \<lparr>m_tenantId = t, m_userId = u, m_role = r, m_status = st\<rparr> \<notin> memberKey ` set ms"
  using find_key_None [of t u ms] by (simp add: memberKey_def)

lemma joinTenant_unique:
  "distinct (map memberKey (memberships d)) \<Longrightarrow>
     distinct (map memberKey (memberships (snd (joinTenant C tenantId userSub d))))"
  by (simp add: joinTenant_def Let_def memberKey_new split: option.splits)

lemma joinTenantBySlug_unique:
  "distinct (map memberKey (memberships d)) \<Longrightarrow>
     distinct (map memberKey (memberships (snd (joinTenantBySlug C now req d))))"
  by (simp add: joinTenantBySlug_def Let_def distinct_upsertMembership split: option.splits)

lemma promoteMembership_unique:
  "distinct (map memberKey (memberships d)) \<Longrightarrow>
     distinct (map memberKey (memberships (snd (promoteMembership tenant c user u r d))))"
  by (simp add: promoteMembership_def distinct_upsertMembership)

lemma promoteUserToTenant_unique:
  "distinct (map memberKey (memberships d)) \<Longrightarrow>
     distinct (map memberKey (memberships (snd (promoteUserToTenant C newId userId body d))))"
  by (simp add: promoteUserToTenant_def Let_def promoteMembership_unique split: option.splits)

text \<open>C9: direct join, join by slug (with or without an invitation) and super-admin
  promotion each keep the store free of a second membership for the same
  (tenant, user) pair.\<close>

theorem C9_unique_membership:
  assumes "uniqueMemberships d"
  shows "uniqueMemberships (snd (joinTenant C tenantId userSub d))
       \<and> uniqueMemberships (snd (joinTenantBySlug C now req d))
       \<and> uniqueMemberships (snd (promoteUserToTenant C newId userId body d))"
  using assms unfolding uniqueMemberships_def
  by (simp add: joinTenant_unique joinTenantBySlug_unique promoteUserToTenant_unique)

theorem C9_unique_membership_witness:
  "uniqueMemberships (snd (joinTenant hexOid ex_tid ex_uid ex_admin_db))
   \<and> uniqueMemberships (snd (joinTenantBySlug hexOid 1000 ex_accept_req ex_accept_db))
   \<and> uniqueMemberships (snd (promoteUserToTenant hexOid ex_tid2 ex_uid
        \<lparr>pb_existingTenantId = ex_tid, pb_membershipRole = ''OWNER'', pb_tenantName = [],
         pb_tenantSlug = [], pb_logoUrl = []\<rparr> ex_admin_db))"
proof -
  have a: "uniqueMemberships ex_admin_db"
    by (simp add: uniqueMemberships_def ex_admin_db_def ex_db0_def)
  have b: "uniqueMemberships ex_accept_db"
    by (simp add: uniqueMemberships_def ex_accept_db_def ex_db0_def)
  show ?thesis
    using C9_unique_membership [OF a, of hexOid ex_tid ex_uid]
      C9_unique_membership [OF b, of hexOid _ _ 1000 ex_accept_req]
      C9_unique_membership [OF a, of hexOid _ _ _ _ ex_tid2 ex_uid]
    by blast
qed

end
